theory Spec2Isabelle
  imports Complex_Main "HOL-Library.Word"
begin

unbundle bit_operations_syntax

section \<open>Data model (types.h, socketcan.h, j1939.h)\<close>

type_synonym u8 = "8 word"
type_synonym u16 = "16 word"
type_synonym u32 = "32 word"

text \<open>The constants of types.h.\<close>

definition OSSM_SOURCE_ADDRESS :: u8 where "OSSM_SOURCE_ADDRESS = 0x95"

definition PGN_OSSM_COMMAND :: u32 where "PGN_OSSM_COMMAND = 0xFF00"
definition PGN_OSSM_RESPONSE :: u32 where "PGN_OSSM_RESPONSE = 0xFF01"

definition PGN_AMBIENT_CONDITIONS :: u32 where "PGN_AMBIENT_CONDITIONS = 0xFEF5"
definition PGN_INLET_EXHAUST :: u32 where "PGN_INLET_EXHAUST = 0xFEF6"
definition PGN_ENGINE_TEMP :: u32 where "PGN_ENGINE_TEMP = 0xFEEE"
definition PGN_ENGINE_FLUID_PRESS :: u32 where "PGN_ENGINE_FLUID_PRESS = 0xFEEF"
definition PGN_ENGINE_TEMP_2 :: u32 where "PGN_ENGINE_TEMP_2 = 0xFE69"
definition PGN_ENGINE_TEMP_3 :: u32 where "PGN_ENGINE_TEMP_3 = 0xFE95"
definition PGN_TURBO_PRESS :: u32 where "PGN_TURBO_PRESS = 0xFE96"

text \<open>The enum \<open>EOssmCommand\<close> and the value each enumerator has on the wire.\<close>

datatype EOssmCommand =
    CMD_ENABLE_SPN
  | CMD_SET_NTC_PARAM
  | CMD_SET_PRESSURE_RANGE
  | CMD_SET_TC_TYPE
  | CMD_QUERY
  | CMD_SAVE
  | CMD_RESET
  | CMD_NTC_PRESET
  | CMD_PRESSURE_PRESET

fun cmd_code :: "EOssmCommand \<Rightarrow> u8" where
  "cmd_code CMD_ENABLE_SPN = 0x01"
| "cmd_code CMD_SET_NTC_PARAM = 0x02"
| "cmd_code CMD_SET_PRESSURE_RANGE = 0x03"
| "cmd_code CMD_SET_TC_TYPE = 0x04"
| "cmd_code CMD_QUERY = 0x05"
| "cmd_code CMD_SAVE = 0x06"
| "cmd_code CMD_RESET = 0x07"
| "cmd_code CMD_NTC_PRESET = 0x08"
| "cmd_code CMD_PRESSURE_PRESET = 0x09"

text \<open>
  \<open>TCanFrame\<close>. The field \<open>id\<close> of the C struct is \<open>id'\<close> here (\<open>id\<close> is HOL's
  identity function). \<open>data\<close> is the array \<open>uint8_t data[8]\<close>: a list of 8 bytes.
\<close>

record TCanFrame =
  id' :: u32
  len :: u8
  data :: "u8 list"
  extended :: bool

text \<open>
  \<open>TSensorData\<close>. The C fields are binary32 floats; a field holds here the real number
  that the float denotes. Every value the decoder stores is a binary32 number: the
  constants \<open>-999\<close>, \<open>40\<close>, \<open>273\<close>, \<open>2\<close>, \<open>4\<close>, \<open>0.5\<close>, \<open>0.125\<close>, \<open>0.03125\<close> are, and so
  are the products and differences the decoder forms from them and an 8 or 16 bit
  integer (each has at most 21 significant bits). The one inexact operation, the
  product with \<open>0.4f\<close>, is rounded explicitly, see \<open>decode_humidity\<close>.
\<close>

record TSensorData =
  oilTemperatureC :: real
  coolantTemperatureC :: real
  fuelTemperatureC :: real
  boostTemperatureC :: real
  cacInletTemperatureC :: real
  transferPipeTemperatureC :: real
  airInletTemperatureC :: real
  engineBayTemperatureC :: real
  ambientTemperatureC :: real
  egtTemperatureC :: real
  oilPressurekPa :: real
  coolantPressurekPa :: real
  fuelPressurekPa :: real
  boostPressurekPa :: real
  airInletPressurekPa :: real
  cacInletPressurekPa :: real
  transferPipePressurekPa :: real
  absoluteBarometricPressurekPa :: real
  humidity :: real
  lastUpdateMs :: u32

record TConfigState =
  tempCount :: u8
  pressureCount :: u8
  egtEnabled :: bool
  bme280Enabled :: bool
  sourceAddress :: u8
  thermocoupleType :: u8

text \<open>\<open>TSpnAssignments\<close>: \<open>uint16_t tempSpns[8]\<close> and \<open>uint16_t presSpns[7]\<close>.\<close>

record TSpnAssignments =
  tempSpns :: "u16 list"
  presSpns :: "u16 list"

section \<open>Identifier codec (j1939.c, lines 10 to 33)\<close>

definition j1939_get_pgn :: "u32 \<Rightarrow> u32" where
  "j1939_get_pgn can_id =
     (let pf = (ucast (drop_bit 16 can_id AND 0xFF) :: u8) in
      if pf < 240 then push_bit 8 (ucast pf :: u32)
      else
        (let ps = (ucast (drop_bit 8 can_id AND 0xFF) :: u8) in
         push_bit 8 (ucast pf :: u32) OR ucast ps))"

definition j1939_get_source :: "u32 \<Rightarrow> u8" where
  "j1939_get_source can_id = ucast (can_id AND 0xFF)"

definition j1939_build_id :: "u32 \<Rightarrow> u8 \<Rightarrow> u8 \<Rightarrow> u32" where
  "j1939_build_id pgn priority source =
     push_bit 26 (ucast (priority AND 0x07) :: u32) OR
     push_bit 8 (pgn AND 0x3FFFF) OR
     ucast source"

section \<open>Scalar decodings (j1939.c, lines 35 to 71)\<close>

text \<open>
  Rounding to binary32, to nearest with ties to even, of the non-negative rational
  \<open>p / 2 ^ 25\<close> for a natural number \<open>p < 2 ^ 32\<close>: \<open>f32_round_scaled p\<close> is the
  numerator of the result over the same denominator. A number of at most 24 bits is
  exact; a longer one keeps its 24 leading bits.
\<close>

fun bitlen :: "nat \<Rightarrow> nat" where
  "bitlen n = (if n = 0 then 0 else Suc (bitlen (n div 2)))"

declare bitlen.simps [simp del]

definition f32_round_scaled :: "nat \<Rightarrow> nat" where
  "f32_round_scaled p =
     (if bitlen p \<le> 24 then p
      else
        (let s = bitlen p - 24;
             q = p div 2 ^ s;
             r = p mod 2 ^ s;
             h = 2 ^ (s - 1)
         in (if h < r \<or> (r = h \<and> odd q) then q + 1 else q) * 2 ^ s))"

text \<open>The binary32 constant \<open>0.4f\<close> is \<open>13421773 / 2 ^ 25\<close> (bit pattern \<open>0x3ECCCCCD\<close>).\<close>

definition f32_mul_0_4 :: "u8 \<Rightarrow> real" where
  "f32_mul_0_4 byte = real (f32_round_scaled (unat byte * 13421773)) / 2 ^ 25"

definition decode_temp_byte :: "u8 \<Rightarrow> real" where
  "decode_temp_byte byte = (if byte = 0xFF then -999 else real (unat byte) - 40)"

definition decode_temp_16bit_le :: "u8 \<Rightarrow> u8 \<Rightarrow> real" where
  "decode_temp_16bit_le low high =
     (if high = 0xFF \<and> low = 0xFF then -999
      else
        (let val = (push_bit 8 (ucast high :: u16) OR ucast low) in
         real (unat val) * 0.03125 - 273))"

definition decode_pressure_2kpa :: "u8 \<Rightarrow> real" where
  "decode_pressure_2kpa byte = (if byte = 0xFF then -999 else real (unat byte) * 2)"

definition decode_pressure_4kpa :: "u8 \<Rightarrow> real" where
  "decode_pressure_4kpa byte = (if byte = 0xFF then -999 else real (unat byte) * 4)"

definition decode_baro_pressure :: "u8 \<Rightarrow> real" where
  "decode_baro_pressure byte = (if byte = 0xFF then -999 else real (unat byte) * 0.5)"

definition decode_humidity :: "u8 \<Rightarrow> real" where
  "decode_humidity byte = (if byte = 0xFF then -999 else f32_mul_0_4 byte)"

section \<open>Telemetry decoder (j1939.c, lines 79 to 188)\<close>

text \<open>
  \<open>j1939_parse_message frame data0 now\<close> returns the C function's result and the
  snapshot \<open>*data\<close> after the call (\<open>data0\<close> is the snapshot before it). \<open>now\<close> is what \<open>get_time_ms()\<close> returns when the
  function calls it (the monotonic clock is outside the program). The \<open>switch\<close> is a
  chain of tests in the order of its \<open>case\<close> labels, which are pairwise different.
\<close>

definition j1939_parse_message :: "TCanFrame \<Rightarrow> TSensorData \<Rightarrow> u32 \<Rightarrow> bool \<times> TSensorData" where
  "j1939_parse_message frame data0 now =
     (if \<not> extended frame then (False, data0)
      else
        (let source = j1939_get_source (id' frame) in
         if source \<noteq> OSSM_SOURCE_ADDRESS then (False, data0)
         else
           (let pgn = j1939_get_pgn (id' frame);
                d = data frame;
                (updated, data1) =
                  (if pgn = PGN_AMBIENT_CONDITIONS then
                     (True, data0\<lparr>absoluteBarometricPressurekPa := decode_baro_pressure (d ! 0),
                                  ambientTemperatureC := decode_temp_16bit_le (d ! 3) (d ! 4),
                                  airInletTemperatureC := decode_temp_byte (d ! 5)\<rparr>)
                   else if pgn = PGN_INLET_EXHAUST then
                     (True, data0\<lparr>boostPressurekPa := decode_pressure_2kpa (d ! 1),
                                  boostTemperatureC := decode_temp_byte (d ! 2),
                                  airInletPressurekPa := decode_pressure_2kpa (d ! 3),
                                  egtTemperatureC := decode_temp_16bit_le (d ! 5) (d ! 6)\<rparr>)
                   else if pgn = PGN_ENGINE_TEMP then
                     (True, data0\<lparr>coolantTemperatureC := decode_temp_byte (d ! 0),
                                  fuelTemperatureC := decode_temp_byte (d ! 1),
                                  oilTemperatureC := decode_temp_16bit_le (d ! 2) (d ! 3)\<rparr>)
                   else if pgn = PGN_ENGINE_FLUID_PRESS then
                     (True, data0\<lparr>fuelPressurekPa := decode_pressure_4kpa (d ! 0),
                                  oilPressurekPa := decode_pressure_4kpa (d ! 3),
                                  coolantPressurekPa := decode_pressure_2kpa (d ! 6)\<rparr>)
                   else if pgn = PGN_ENGINE_TEMP_2 then
                     (True, data0)
                   else if pgn = PGN_ENGINE_TEMP_3 then
                     (True, data0\<lparr>cacInletTemperatureC := decode_temp_byte (d ! 0),
                                  transferPipeTemperatureC := decode_temp_byte (d ! 1)\<rparr>)
                   else if pgn = PGN_TURBO_PRESS then
                     (let data_a =
                            (if d ! 0 \<noteq> 0xFF \<or> d ! 1 \<noteq> 0xFF then
                               (let val = (push_bit 8 (ucast (d ! 1) :: u16) OR ucast (d ! 0)) in
                                data0\<lparr>cacInletPressurekPa := real (unat val) * 0.125\<rparr>)
                             else data0);
                          data_b =
                            (if d ! 2 \<noteq> 0xFF \<or> d ! 3 \<noteq> 0xFF then
                               (let val = (push_bit 8 (ucast (d ! 3) :: u16) OR ucast (d ! 2)) in
                                data_a\<lparr>transferPipePressurekPa := real (unat val) * 0.125\<rparr>)
                             else data_a)
                      in (True, data_b))
                   else if pgn = 65164 then
                     (True, data0\<lparr>engineBayTemperatureC := decode_temp_byte (d ! 0),
                                  humidity := decode_humidity (d ! 6)\<rparr>)
                   else (False, data0))
            in (updated, if updated then data1\<lparr>lastUpdateMs := now\<rparr> else data1))))"

section \<open>Transport (socketcan.h)\<close>

text \<open>
  The socket is the program's window on the bus. Its state records what the outside
  does and what the program did to it:
  \<^item> \<open>rx sock n\<close> is the outcome of the \<open>n\<close>-th call of \<open>socketcan_receive\<close>, any
    sequence of outcomes being possible, and \<open>rx_pos\<close> counts the calls made;
  \<^item> \<open>tx_ok sock n\<close> says whether the \<open>n\<close>-th call of \<open>socketcan_send\<close> succeeds, and
    \<open>sent\<close> lists the frames handed to \<open>socketcan_send\<close>, oldest first;
  \<^item> \<open>slept_us\<close> adds up the arguments of \<open>usleep\<close>, in microseconds.
  \<open>socketcan_receive\<close> returns 1 and fills \<open>*frame\<close> (\<open>Received\<close>, with the frame as the
  caller finds it), 0 (\<open>NoData\<close>) or -1 (\<open>RecvError\<close>); in the last two cases
  \<open>*frame\<close> is not written.
\<close>

datatype rx_result = Received TCanFrame | NoData | RecvError

record can_bus =
  rx :: "nat \<Rightarrow> rx_result"
  rx_pos :: nat
  tx_ok :: "nat \<Rightarrow> bool"
  sent :: "TCanFrame list"
  slept_us :: nat

definition socketcan_send :: "can_bus \<Rightarrow> TCanFrame \<Rightarrow> can_bus \<times> int" where
  "socketcan_send sock frame =
     (sock\<lparr>sent := sent sock @ [frame]\<rparr>,
      if tx_ok sock (length (sent sock)) then 0 else -1)"

definition socketcan_receive :: "can_bus \<Rightarrow> can_bus \<times> rx_result" where
  "socketcan_receive sock = (sock\<lparr>rx_pos := rx_pos sock + 1\<rparr>, rx sock (rx_pos sock))"

definition usleep :: "nat \<Rightarrow> can_bus \<Rightarrow> can_bus" where
  "usleep us sock = sock\<lparr>slept_us := slept_us sock + us\<rparr>"

text \<open>
  \<open>memcpy(&dst[off], src, n)\<close> on byte arrays. The C call is defined when
  \<open>off + n \<le> length dst\<close> and \<open>n \<le> length src\<close>, which holds at every call below
  whose source buffer has the \<open>n\<close> bytes it announces.
\<close>

definition memcpy :: "u8 list \<Rightarrow> nat \<Rightarrow> u8 list \<Rightarrow> nat \<Rightarrow> u8 list" where
  "memcpy dst off src n = take off dst @ take n src @ drop (off + n) dst"

section \<open>Command/response engine (j1939.c, lines 190 to 242)\<close>

text \<open>\<open>params\<close> is \<open>None\<close> for a \<open>NULL\<close> pointer.\<close>

definition j1939_send_command ::
  "can_bus \<Rightarrow> EOssmCommand \<Rightarrow> u8 list option \<Rightarrow> u8 \<Rightarrow> can_bus \<times> int" where
  "j1939_send_command sock cmd params param_len =
     (let data0 = replicate 8 (0xFF :: u8);
          data1 = data0[0 := cmd_code cmd];
          data2 =
            (case params of
               None \<Rightarrow> data1
             | Some ps \<Rightarrow>
                 if 0 < param_len then
                   (let param_len1 = (if 7 < param_len then 7 else param_len) in
                    memcpy data1 1 ps (unat param_len1))
                 else data1);
          frame = \<lparr>id' = j1939_build_id PGN_OSSM_COMMAND 6 0x00, len = 8,
                   data = data2, extended = True\<rparr>
      in socketcan_send sock frame)"

text \<open>
  The polling loop of \<open>j1939_check_response\<close>, from the state it has at the loop head.
  \<open>response_data\<close> and \<open>response_len\<close> are the caller's buffers (\<open>None\<close> for a \<open>NULL\<close>
  pointer); the result has the socket, the \<open>int\<close> returned and the two buffers after
  the call. The local \<open>frame\<close> is read only after \<open>socketcan_receive\<close> has filled it,
  and the local \<open>timeout_ms\<close> is the constant 1000.
\<close>

function check_response_loop ::
  "can_bus \<Rightarrow> u8 \<Rightarrow> u8 list option \<Rightarrow> u8 option \<Rightarrow> int
     \<Rightarrow> can_bus \<times> int \<times> u8 list option \<times> u8 option" where
  "check_response_loop sock expected_cmd response_data response_len elapsed =
     (if elapsed < 1000 then
        (case socketcan_receive sock of
           (sock1, Received frame) \<Rightarrow>
             (let pgn = j1939_get_pgn (id' frame);
                  source = j1939_get_source (id' frame)
              in if pgn = PGN_OSSM_RESPONSE \<and> source = OSSM_SOURCE_ADDRESS then
                   if data frame ! 0 = expected_cmd then
                     (let error = data frame ! 1 in
                      case (response_data, response_len) of
                        (Some buf, Some l) \<Rightarrow>
                          (sock1, uint error,
                           Some (memcpy buf 0 (drop 2 (data frame)) 6), Some 6)
                      | _ \<Rightarrow> (sock1, uint error, response_data, response_len))
                   else check_response_loop (usleep 5000 sock1) expected_cmd
                          response_data response_len (elapsed + 5)
                 else check_response_loop (usleep 5000 sock1) expected_cmd
                        response_data response_len (elapsed + 5))
         | (sock1, _) \<Rightarrow>
             check_response_loop (usleep 5000 sock1) expected_cmd
               response_data response_len (elapsed + 5))
      else (sock, -1, response_data, response_len))"
  by pat_completeness auto
termination
  by (relation "measure (\<lambda>(sock, expected_cmd, response_data, response_len, elapsed).
        nat (1000 - elapsed))") auto

declare check_response_loop.simps [simp del]

definition j1939_check_response ::
  "can_bus \<Rightarrow> u8 \<Rightarrow> u8 list option \<Rightarrow> u8 option
     \<Rightarrow> can_bus \<times> int \<times> u8 list option \<times> u8 option" where
  "j1939_check_response sock expected_cmd response_data response_len =
     check_response_loop (usleep 50000 sock) expected_cmd response_data response_len 0"

text \<open>
  The test that \<open>j1939_check_response\<close> applies to the outcome of one poll (lines 218 to
  227): a frame was received, its PGN is \<open>PGN_OSSM_RESPONSE\<close>, its source is
  \<open>OSSM_SOURCE_ADDRESS\<close> and its first payload byte is \<open>expected_cmd\<close>.
\<close>

definition accepted :: "u8 \<Rightarrow> rx_result \<Rightarrow> bool" where
  "accepted expected_cmd r =
     (case r of
        Received frame \<Rightarrow>
          j1939_get_pgn (id' frame) = PGN_OSSM_RESPONSE \<and>
          j1939_get_source (id' frame) = OSSM_SOURCE_ADDRESS \<and>
          data frame ! 0 = expected_cmd
      | NoData \<Rightarrow> False
      | RecvError \<Rightarrow> False)"

section \<open>High-level operations (j1939.c, lines 244 to 370)\<close>

definition j1939_enable_spn :: "can_bus \<Rightarrow> u16 \<Rightarrow> bool \<Rightarrow> u8 \<Rightarrow> can_bus \<times> int" where
  "j1939_enable_spn sock spn enable input =
     (let params = [ucast (drop_bit 8 spn AND 0xFF), ucast (spn AND 0xFF),
                    if enable then 1 else 0, input]
      in case j1939_send_command sock CMD_ENABLE_SPN (Some params) 4 of
           (sock1, r) \<Rightarrow>
             if r < 0 then (sock1, -1)
             else
               (case j1939_check_response sock1 (cmd_code CMD_ENABLE_SPN) None None of
                  (sock2, result, _, _) \<Rightarrow> (sock2, result)))"

text \<open>
  \<open>j1939_query_config\<close> and \<open>j1939_query_spn_assignments\<close> declare the locals
  \<open>uint8_t response[6]\<close> and \<open>uint8_t len\<close> without initialising them. Their
  indeterminate first contents are the arguments \<open>response\<close> and \<open>len'\<close> of the models;
  \<open>response\<close> is a list of 6 bytes. \<open>state\<close> is \<open>None\<close> for a \<open>NULL\<close> pointer. The result
  has the socket, the \<open>int\<close> returned and \<open>*state\<close> after the call.
\<close>

definition j1939_query_config ::
  "can_bus \<Rightarrow> TConfigState option \<Rightarrow> u8 list \<Rightarrow> u8 \<Rightarrow> can_bus \<times> int \<times> TConfigState option" where
  "j1939_query_config sock state response len' =
     (let params = [0] in
      case j1939_send_command sock CMD_QUERY (Some params) 1 of
        (sock1, r) \<Rightarrow>
          if r < 0 then (sock1, -1, state)
          else
            (case j1939_check_response sock1 (cmd_code CMD_QUERY) (Some response) (Some len') of
               (sock2, result, response1, len1) \<Rightarrow>
                 (case state of
                    Some st \<Rightarrow>
                      if result = 0 then
                        (sock2, result,
                         Some (st\<lparr>tempCount := the response1 ! 0,
                                   pressureCount := the response1 ! 1,
                                   egtEnabled := (the response1 ! 2 \<noteq> 0),
                                   bme280Enabled := (the response1 ! 3 \<noteq> 0)\<rparr>))
                      else (sock2, result, state)
                  | None \<Rightarrow> (sock2, result, state))))"

text \<open>
  The inner loops of \<open>j1939_query_spn_assignments\<close> (lines 337 to 345 and 358 to 366),
  from the loop head with counter \<open>i\<close>: they return the table after the loop.
\<close>

function parse_temp_spns :: "u8 \<Rightarrow> u8 list \<Rightarrow> TSpnAssignments \<Rightarrow> u8 \<Rightarrow> TSpnAssignments" where
  "parse_temp_spns subQuery response assignments i =
     (if i < 3 then
        (let idx = subQuery * 3 + i;
             assignments1 =
               (if idx < 8 then
                  (let spn = (push_bit 8 (ucast (response ! (unat i * 2)) :: u16) OR
                              ucast (response ! (unat i * 2 + 1)))
                   in if spn \<noteq> 0xFFFF then
                        assignments\<lparr>tempSpns := (tempSpns assignments)[unat idx := spn]\<rparr>
                      else assignments)
                else assignments)
         in parse_temp_spns subQuery response assignments1 (i + 1))
      else assignments)"
  by pat_completeness auto
termination
  by (relation "measure (\<lambda>(subQuery, response, assignments, i). 3 - unat i)")
     (auto simp: word_less_nat_alt unat_word_ariths)

function parse_pres_spns :: "u8 \<Rightarrow> u8 list \<Rightarrow> TSpnAssignments \<Rightarrow> u8 \<Rightarrow> TSpnAssignments" where
  "parse_pres_spns subQuery response assignments i =
     (if i < 3 then
        (let idx = subQuery * 3 + i;
             assignments1 =
               (if idx < 7 then
                  (let spn = (push_bit 8 (ucast (response ! (unat i * 2)) :: u16) OR
                              ucast (response ! (unat i * 2 + 1)))
                   in if spn \<noteq> 0xFFFF then
                        assignments\<lparr>presSpns := (presSpns assignments)[unat idx := spn]\<rparr>
                      else assignments)
                else assignments)
         in parse_pres_spns subQuery response assignments1 (i + 1))
      else assignments)"
  by pat_completeness auto
termination
  by (relation "measure (\<lambda>(subQuery, response, assignments, i). 3 - unat i)")
     (auto simp: word_less_nat_alt unat_word_ariths)

declare parse_temp_spns.simps [simp del]
declare parse_pres_spns.simps [simp del]

text \<open>
  The outer loops (lines 328 to 346 and 349 to 367), from the loop head with counter
  \<open>subQuery\<close>. \<open>Inl\<close> is a \<open>return\<close> inside the loop, with the socket, the value
  returned and the table at that moment; \<open>Inr\<close> is the normal end of the loop, with the
  socket, the table and the two locals.
\<close>

function query_temp_spns ::
  "can_bus \<Rightarrow> TSpnAssignments \<Rightarrow> u8 list \<Rightarrow> u8 \<Rightarrow> u8
     \<Rightarrow> (can_bus \<times> int \<times> TSpnAssignments) + (can_bus \<times> TSpnAssignments \<times> u8 list \<times> u8)" where
  "query_temp_spns sock assignments response len' subQuery =
     (if subQuery < 3 then
        (let params = [1, subQuery] in
         case j1939_send_command sock CMD_QUERY (Some params) 2 of
           (sock1, r) \<Rightarrow>
             if r < 0 then Inl (sock1, -1, assignments)
             else
               (case j1939_check_response sock1 (cmd_code CMD_QUERY)
                       (Some response) (Some len') of
                  (sock2, result, response1, len1) \<Rightarrow>
                    if result \<noteq> 0 then Inl (sock2, result, assignments)
                    else
                      query_temp_spns sock2
                        (parse_temp_spns subQuery (the response1) assignments 0)
                        (the response1) (the len1) (subQuery + 1)))
      else Inr (sock, assignments, response, len'))"
  by pat_completeness auto
termination
  by (relation "measure (\<lambda>(sock, assignments, response, len', subQuery). 3 - unat subQuery)")
     (auto simp: word_less_nat_alt unat_word_ariths)

function query_pres_spns ::
  "can_bus \<Rightarrow> TSpnAssignments \<Rightarrow> u8 list \<Rightarrow> u8 \<Rightarrow> u8
     \<Rightarrow> (can_bus \<times> int \<times> TSpnAssignments) + (can_bus \<times> TSpnAssignments \<times> u8 list \<times> u8)" where
  "query_pres_spns sock assignments response len' subQuery =
     (if subQuery < 3 then
        (let params = [2, subQuery] in
         case j1939_send_command sock CMD_QUERY (Some params) 2 of
           (sock1, r) \<Rightarrow>
             if r < 0 then Inl (sock1, -1, assignments)
             else
               (case j1939_check_response sock1 (cmd_code CMD_QUERY)
                       (Some response) (Some len') of
                  (sock2, result, response1, len1) \<Rightarrow>
                    if result \<noteq> 0 then Inl (sock2, result, assignments)
                    else
                      query_pres_spns sock2
                        (parse_pres_spns subQuery (the response1) assignments 0)
                        (the response1) (the len1) (subQuery + 1)))
      else Inr (sock, assignments, response, len'))"
  by pat_completeness auto
termination
  by (relation "measure (\<lambda>(sock, assignments, response, len', subQuery). 3 - unat subQuery)")
     (auto simp: word_less_nat_alt unat_word_ariths)

declare query_temp_spns.simps [simp del]
declare query_pres_spns.simps [simp del]

text \<open>
  \<open>assignments\<close> is the table the caller passes, which the \<open>memset\<close> overwrites with
  zeros (the pointer is not \<open>NULL\<close>: the function dereferences it at once).
\<close>

definition j1939_query_spn_assignments ::
  "can_bus \<Rightarrow> TSpnAssignments \<Rightarrow> u8 list \<Rightarrow> u8 \<Rightarrow> can_bus \<times> int \<times> TSpnAssignments" where
  "j1939_query_spn_assignments sock assignments response len' =
     (let assignments0 = assignments\<lparr>tempSpns := replicate 8 0, presSpns := replicate 7 0\<rparr> in
      case query_temp_spns sock assignments0 response len' 0 of
        Inl ret \<Rightarrow> ret
      | Inr (sock1, assignments1, response1, len1) \<Rightarrow>
          (case query_pres_spns sock1 assignments1 response1 len1 0 of
             Inl ret \<Rightarrow> ret
           | Inr (sock2, assignments2, response2, len2) \<Rightarrow> (sock2, 0, assignments2)))"

section \<open>Start-up values and the named telemetry PGNs\<close>

text \<open>The snapshot as \<open>main\<close> sets it up (main.c, lines 88 to 110).\<close>

definition initial_sensor_data :: TSensorData where
  "initial_sensor_data =
     \<lparr>oilTemperatureC = -999, coolantTemperatureC = -999, fuelTemperatureC = -999,
      boostTemperatureC = -999, cacInletTemperatureC = -999,
      transferPipeTemperatureC = -999, airInletTemperatureC = -999,
      engineBayTemperatureC = -999, ambientTemperatureC = -999, egtTemperatureC = -999,
      oilPressurekPa = -999, coolantPressurekPa = -999, fuelPressurekPa = -999,
      boostPressurekPa = -999, airInletPressurekPa = -999, cacInletPressurekPa = -999,
      transferPipePressurekPa = -999, absoluteBarometricPressurekPa = -999,
      humidity = -999, lastUpdateMs = 0\<rparr>"

text \<open>The seven data PGNs that types.h names (lines 15 to 22).\<close>

definition data_pgns :: "u32 list" where
  "data_pgns =
     [PGN_AMBIENT_CONDITIONS, PGN_INLET_EXHAUST, PGN_ENGINE_TEMP, PGN_ENGINE_FLUID_PRESS,
      PGN_ENGINE_TEMP_2, PGN_ENGINE_TEMP_3, PGN_TURBO_PRESS]"

section \<open>Example transports\<close>

text \<open>A bus on which nothing arrives and every send succeeds.\<close>

definition quiet_bus :: can_bus where
  "quiet_bus = \<lparr>rx = (\<lambda>n. NoData), rx_pos = 0, tx_ok = (\<lambda>n. True), sent = [], slept_us = 0\<rparr>"

text \<open>A response frame of the module: PGN \<open>0xFF01\<close>, source \<open>0x95\<close>, priority 6.\<close>

definition reply_frame :: "u8 list \<Rightarrow> TCanFrame" where
  "reply_frame payload = \<lparr>id' = 0x18FF0195, len = 8, data = payload, extended = True\<rparr>"

text \<open>
  A bus on which the response to a query (command \<open>0x05\<close>) is the fourth outcome,
  after a response to another command, a poll without data and a telemetry frame.
\<close>

definition busy_bus :: can_bus where
  "busy_bus =
     \<lparr>rx = (\<lambda>n. if n = 0 then Received (reply_frame [0x06, 0, 0xFF, 0xFF, 0xFF, 0xFF, 0xFF, 0xFF])
                 else if n = 1 then NoData
                 else if n = 2 then Received \<lparr>id' = 0x18FEF595, len = 8, data = [0x05, 0, 0, 0, 0, 0, 0, 0], extended = True\<rparr>
                 else if n = 3 then Received (reply_frame [0x05, 0x00, 4, 2, 1, 0, 0xFF, 0xFF])
                 else NoData),
      rx_pos = 0, tx_ok = (\<lambda>n. True), sent = [], slept_us = 0\<rparr>"

text \<open>A bus on which every poll yields a response to command \<open>0x05\<close> with error code 8.\<close>

definition error_bus :: can_bus where
  "error_bus =
     \<lparr>rx = (\<lambda>n. Received (reply_frame [0x05, 0x08, 0xFF, 0xFF, 0xFF, 0xFF, 0xFF, 0xFF])),
      rx_pos = 0, tx_ok = (\<lambda>n. True), sent = [], slept_us = 0\<rparr>"

text \<open>
  Responses to a query: one carrying the SPNs 175, 110 and 174, one carrying 105, the
  unused marker \<open>0xFFFF\<close> and 1131, and one with error code 8.
\<close>

definition temp_reply_a :: TCanFrame where
  "temp_reply_a = reply_frame [0x05, 0x00, 0x00, 0xAF, 0x00, 0x6E, 0x00, 0xAE]"

definition temp_reply_b :: TCanFrame where
  "temp_reply_b = reply_frame [0x05, 0x00, 0x00, 0x69, 0xFF, 0xFF, 0x04, 0x6B]"

definition error_reply :: TCanFrame where
  "error_reply = reply_frame [0x05, 0x08, 0xFF, 0xFF, 0xFF, 0xFF, 0xFF, 0xFF]"

text \<open>
  \<open>scripted_bus good oks\<close>: the first \<open>good\<close> polls (at most two) yield the two responses
  with SPNs, every later poll the response with error code 8; the first \<open>oks\<close> sends
  succeed and every later one fails.
\<close>

definition scripted_bus :: "nat \<Rightarrow> nat \<Rightarrow> can_bus" where
  "scripted_bus good oks =
     \<lparr>rx = (\<lambda>n. if n < good then (if n = 0 then Received temp_reply_a
                                     else Received temp_reply_b)
                 else Received error_reply),
      rx_pos = 0, tx_ok = (\<lambda>n. n < oks), sent = [], slept_us = 0\<rparr>"

text \<open>The query frame of \<open>j1939_query_spn_assignments\<close> for a query type and a sub-index.\<close>

definition query_frame :: "u8 \<Rightarrow> u8 \<Rightarrow> TCanFrame" where
  "query_frame query_type sub_query =
     \<lparr>id' = 0x18FF0000, len = 8,
      data = [0x05, query_type, sub_query, 0xFF, 0xFF, 0xFF, 0xFF, 0xFF], extended = True\<rparr>"

text \<open>A configuration state and an assignment table with earlier contents.\<close>

definition some_config :: TConfigState where
  "some_config = \<lparr>tempCount = 3, pressureCount = 2, egtEnabled = True,
                   bme280Enabled = False, sourceAddress = 0x95, thermocoupleType = 1\<rparr>"

definition stale_assignments :: TSpnAssignments where
  "stale_assignments =
     \<lparr>tempSpns = [175, 110, 174, 105, 1131, 1132, 1133, 172],
      presSpns = [100, 109, 94, 102, 106, 1127, 1128]\<rparr>"

section \<open>Facts about the identifier codec\<close>

lemmas pgn_defs =
  PGN_OSSM_COMMAND_def PGN_OSSM_RESPONSE_def PGN_AMBIENT_CONDITIONS_def
  PGN_INLET_EXHAUST_def PGN_ENGINE_TEMP_def PGN_ENGINE_FLUID_PRESS_def
  PGN_ENGINE_TEMP_2_def PGN_ENGINE_TEMP_3_def PGN_TURBO_PRESS_def

lemmas decode_defs =
  decode_temp_byte_def decode_temp_16bit_le_def decode_pressure_2kpa_def
  decode_pressure_4kpa_def decode_baro_pressure_def decode_humidity_def

lemma m8_32: "(255 :: u32) = mask 8"
  by (simp add: mask_eq_decr_exp)

lemma m18_32: "(0x3FFFF :: u32) = mask 18"
  by (simp add: mask_eq_decr_exp)

lemma m3_8: "(7 :: u8) = mask 3"
  by (simp add: mask_eq_decr_exp)

text \<open>The PDU-Format byte of the rebuilt identifier is that of the original.\<close>

lemma pf_rebuild:
  "drop_bit 16 (j1939_build_id (j1939_get_pgn i AND 0x3FFFF) p (j1939_get_source i)) AND 0xFF
   = drop_bit 16 i AND (0xFF :: u32)"
  unfolding j1939_build_id_def j1939_get_pgn_def j1939_get_source_def Let_def m8_32 m18_32 m3_8
  by (rule bit_word_eqI) (auto simp: bit_simps)

text \<open>In PDU2 format the PDU-Specific byte is kept as well.\<close>

lemma ps_rebuild:
  "\<not> (ucast (drop_bit 16 i AND 0xFF) :: u8) < 240 \<Longrightarrow>
   drop_bit 8 (j1939_build_id (j1939_get_pgn i AND 0x3FFFF) p (j1939_get_source i)) AND 0xFF
   = drop_bit 8 i AND (0xFF :: u32)"
  unfolding j1939_build_id_def j1939_get_pgn_def j1939_get_source_def Let_def
  apply (simp only: if_False)
  unfolding m8_32 m18_32 m3_8
  apply (rule bit_word_eqI)
  apply (auto simp: bit_simps)
  done

lemma src_rebuild: "j1939_get_source (j1939_build_id pgn p s) = s"
  unfolding j1939_build_id_def j1939_get_source_def m8_32 m18_32 m3_8
  by (rule bit_word_eqI) (auto simp: bit_simps)

text \<open>\<open>j1939_get_pgn\<close> reads bits 16 to 23 and, in PDU2 format only, bits 8 to 15.\<close>

lemma get_pgn_cong:
  "drop_bit 16 a AND 0xFF = drop_bit 16 b AND (0xFF :: u32) \<Longrightarrow>
   (\<not> (ucast (drop_bit 16 b AND 0xFF) :: u8) < 240 \<Longrightarrow>
      drop_bit 8 a AND 0xFF = drop_bit 8 b AND (0xFF :: u32)) \<Longrightarrow>
   j1939_get_pgn a = j1939_get_pgn b"
  by (simp add: j1939_get_pgn_def Let_def)

lemma pf_ucast_less: "((ucast (x AND 0xFF :: u32) :: u8) < 240) = (x AND 0xFF < 240)"
proof -
  have "unat (ucast (x AND mask 8 :: u32) :: u8) = unat (x AND mask 8)"
    by (simp add: unsigned_ucast_eq unsigned_take_bit_eq flip: take_bit_eq_mask)
  then show ?thesis
    unfolding m8_32 by (simp add: word_less_nat_alt)
qed

text \<open>
  C1. For every identifier \<open>can_id\<close> (29-bit or not) and every priority, the identifier
  rebuilt by \<open>j1939_build_id\<close> from the PGN of \<open>can_id\<close> masked to 18 bits, the priority
  and the source of \<open>can_id\<close> has the same PGN and the same source as \<open>can_id\<close>.
\<close>

theorem build_id_roundtrip:
  "j1939_get_pgn
     (j1939_build_id (j1939_get_pgn can_id AND 0x3FFFF) priority (j1939_get_source can_id))
     = j1939_get_pgn can_id \<and>
   j1939_get_source
     (j1939_build_id (j1939_get_pgn can_id AND 0x3FFFF) priority (j1939_get_source can_id))
     = j1939_get_source can_id"
proof
  show "j1939_get_pgn
     (j1939_build_id (j1939_get_pgn can_id AND 0x3FFFF) priority (j1939_get_source can_id))
     = j1939_get_pgn can_id"
    by (rule get_pgn_cong [OF pf_rebuild ps_rebuild])
  show "j1939_get_source
     (j1939_build_id (j1939_get_pgn can_id AND 0x3FFFF) priority (j1939_get_source can_id))
     = j1939_get_source can_id"
    by (rule src_rebuild)
qed

text \<open>The round trip at the identifier \<open>0x0CFEF595\<close> with priority 6.\<close>

theorem build_id_roundtrip_witness:
  "j1939_get_pgn (j1939_build_id (j1939_get_pgn 0x0CFEF595 AND 0x3FFFF) 6
      (j1939_get_source 0x0CFEF595)) = 0xFEF5 \<and>
   j1939_get_source (j1939_build_id (j1939_get_pgn 0x0CFEF595 AND 0x3FFFF) 6
      (j1939_get_source 0x0CFEF595)) = 0x95"
proof -
  have "j1939_get_pgn 0x0CFEF595 = 0xFEF5"
    by (simp add: j1939_get_pgn_def)
  moreover have "j1939_get_source 0x0CFEF595 = 0x95"
    by (simp add: j1939_get_source_def)
  ultimately show ?thesis
    using build_id_roundtrip [of "0x0CFEF595" 6] by simp
qed

text \<open>
  C7. When the PDU-Format byte (bits 16 to 23) of an identifier is below 240, the low
  8 bits of its PGN are zero; when it is 240 or more, they are the PDU-Specific byte
  (bits 8 to 15).
\<close>

theorem get_pgn_low_byte:
  "(drop_bit 16 can_id AND 0xFF < 240 \<longrightarrow> j1939_get_pgn can_id AND 0xFF = 0) \<and>
   (240 \<le> drop_bit 16 can_id AND 0xFF \<longrightarrow>
      j1939_get_pgn can_id AND 0xFF = drop_bit 8 can_id AND 0xFF)"
proof (cases "drop_bit 16 can_id AND 0xFF < 240")
  case True
  then have "j1939_get_pgn can_id =
      push_bit 8 (ucast (ucast (drop_bit 16 can_id AND 0xFF) :: u8))"
    by (simp add: j1939_get_pgn_def pf_ucast_less)
  moreover have
    "push_bit 8 (ucast (ucast (drop_bit 16 can_id AND 0xFF) :: u8)) AND (0xFF :: u32) = 0"
    unfolding m8_32 by (rule bit_word_eqI) (auto simp: bit_simps)
  ultimately show ?thesis using True by simp
next
  case False
  then have "j1939_get_pgn can_id =
      push_bit 8 (ucast (ucast (drop_bit 16 can_id AND 0xFF) :: u8)) OR
      ucast (ucast (drop_bit 8 can_id AND 0xFF) :: u8)"
    by (simp add: j1939_get_pgn_def pf_ucast_less)
  moreover have
    "(push_bit 8 (ucast (ucast (drop_bit 16 can_id AND 0xFF) :: u8)) OR
      ucast (ucast (drop_bit 8 can_id AND 0xFF) :: u8)) AND (0xFF :: u32)
     = drop_bit 8 can_id AND 0xFF"
    unfolding m8_32 by (rule bit_word_eqI) (auto simp: bit_simps)
  ultimately show ?thesis using False by simp
qed

text \<open>
  Both formats: \<open>0x18EA9500\<close> has the PDU-Format byte \<open>0xEA = 234\<close>, \<open>0x18FEF595\<close> has
  \<open>0xFE = 254\<close> and the PDU-Specific byte \<open>0xF5\<close>.
\<close>

theorem get_pgn_low_byte_witness:
  "drop_bit 16 (0x18EA9500 :: u32) AND 0xFF < 240 \<and>
   j1939_get_pgn 0x18EA9500 AND 0xFF = 0 \<and>
   240 \<le> drop_bit 16 (0x18FEF595 :: u32) AND 0xFF \<and>
   j1939_get_pgn 0x18FEF595 AND 0xFF = 0xF5"
  using get_pgn_low_byte [of "0x18EA9500"] get_pgn_low_byte [of "0x18FEF595"]
  by simp

section \<open>Facts about the telemetry decoder\<close>

lemma replicate8: "replicate 8 x = [x, x, x, x, x, x, x, x]"
  by (simp add: numeral_eq_Suc)

text \<open>The 16-bit little-endian value of a byte pair.\<close>

lemma le16_value:
  "unat (push_bit 8 (ucast (hi :: u8) :: u16) OR ucast (lo :: u8)) = unat hi * 256 + unat lo"
proof -
  have z: "push_bit 8 (ucast hi :: u16) AND ucast lo = 0"
    by (rule bit_word_eqI) (auto simp: bit_simps dest: bit_imp_le_length)
  have dis: "push_bit 8 (ucast hi :: u16) OR ucast lo = push_bit 8 (ucast hi :: u16) + ucast lo"
    using disjunctive_add_eq_or [OF z] by simp
  have hi: "unat hi < 256" using unsigned_less [of hi, where 'a = nat] by simp
  have lo: "unat lo < 256" using unsigned_less [of lo, where 'a = nat] by simp
  have a: "unat (ucast lo :: u16) = unat lo"
    using lo by (simp add: unsigned_ucast_eq take_bit_nat_eq_self)
  have b: "unat (push_bit 8 (ucast hi :: u16)) = unat hi * 256"
  proof -
    have "unat (push_bit 8 (ucast hi :: u16)) = take_bit 16 (push_bit 8 (unat (ucast hi :: u16)))"
      by (simp only: unsigned_push_bit_eq) simp
    also have "unat (ucast hi :: u16) = unat hi"
      using hi by (simp add: unsigned_ucast_eq take_bit_nat_eq_self)
    also have "take_bit 16 (push_bit 8 (unat hi)) = push_bit 8 (unat hi)"
      using hi by (intro take_bit_nat_eq_self) (simp add: push_bit_eq_mult)
    finally show ?thesis by (simp add: push_bit_eq_mult)
  qed
  show ?thesis
    unfolding dis using hi lo by (simp add: unat_word_ariths a b)
qed

lemma le16_real:
  "(unsigned (push_bit 8 (ucast (hi :: u8) :: u16) OR ucast (lo :: u8)) :: real) =
     unsigned hi * 256 + unsigned lo"
proof -
  have "real (unat (push_bit 8 (ucast hi :: u16) OR ucast lo)) = real (unat hi * 256 + unat lo)"
    by (simp only: le16_value)
  then show ?thesis by simp
qed

text \<open>
  The PGN \<open>0xFE96\<close> case for any payload: each channel is written exactly when its own
  byte pair is not \<open>0xFF, 0xFF\<close>.
\<close>

lemma turbo_press_sel:
  assumes "extended frame" "j1939_get_source (id' frame) = 0x95"
    "j1939_get_pgn (id' frame) = 0xFE96"
    "data frame = [b0, b1, b2, b3, b4, b5, b6, b7]"
  shows "j1939_parse_message frame snapshot now =
      (let data_a =
         (if b0 = 0xFF \<and> b1 = 0xFF then snapshot
          else snapshot\<lparr>cacInletPressurekPa := real (unat b1 * 256 + unat b0) * 0.125\<rparr>);
           data_b =
         (if b2 = 0xFF \<and> b3 = 0xFF then data_a
          else data_a\<lparr>transferPipePressurekPa := real (unat b3 * 256 + unat b2) * 0.125\<rparr>)
       in (True, data_b\<lparr>lastUpdateMs := now\<rparr>))"
      using assms
      by (simp add: j1939_parse_message_def OSSM_SOURCE_ADDRESS_def pgn_defs Let_def le16_real)

lemma turbo_press_general:
  assumes "extended frame" "j1939_get_source (id' frame) = 0x95"
    "j1939_get_pgn (id' frame) = 0xFE96"
    "data frame = [b0, b1, b2, b3, b4, b5, b6, b7]"
  shows "j1939_parse_message frame snapshot now =
           (True,
            snapshot\<lparr>cacInletPressurekPa :=
                       (if b0 = 0xFF \<and> b1 = 0xFF then cacInletPressurekPa snapshot
                        else real (unat b1 * 256 + unat b0) * 0.125),
                     transferPipePressurekPa :=
                       (if b2 = 0xFF \<and> b3 = 0xFF then transferPipePressurekPa snapshot
                        else real (unat b3 * 256 + unat b2) * 0.125),
                     lastUpdateMs := now\<rparr>)"
proof (cases "b0 = 0xFF \<and> b1 = 0xFF")
  case first: True
  show ?thesis
  proof (cases "b2 = 0xFF \<and> b3 = 0xFF")
    case True
    show ?thesis
      by (simp only: turbo_press_sel [OF assms] Let_def first True if_True; simp)
  next
    case False
    show ?thesis
      by (simp only: turbo_press_sel [OF assms] Let_def first False if_True if_False; simp)
  qed
next
  case first: False
  show ?thesis
  proof (cases "b2 = 0xFF \<and> b3 = 0xFF")
    case True
    show ?thesis
      by (simp only: turbo_press_sel [OF assms] Let_def first True if_True if_False; simp)
  next
    case False
    show ?thesis
      by (simp only: turbo_press_sel [OF assms] Let_def first False if_False; simp)
  qed
qed

lemma turbo_press_instance:
  assumes "extended frame" "j1939_get_source (id' frame) = 0x95"
    "j1939_get_pgn (id' frame) = 0xFE96"
    "data frame = [0xFF, 0xFF, 0x10, 0x00, b4, b5, b6, b7]"
  shows "j1939_parse_message frame snapshot now =
           (True, snapshot\<lparr>transferPipePressurekPa := 2, lastUpdateMs := now\<rparr>)"
  using assms
  by (simp add: j1939_parse_message_def OSSM_SOURCE_ADDRESS_def pgn_defs Let_def)

text \<open>
  C9. For a frame with PGN \<open>0xFE96\<close> (extended, source \<open>0x95\<close>) and any payload, the two
  byte pairs are tested independently for the \<open>0xFF, 0xFF\<close> marker: the first channel
  \<open>cacInletPressurekPa\<close> keeps its value when bytes 0 and 1 are both \<open>0xFF\<close> and becomes
  their little-endian value times 0.125 otherwise, and likewise the second channel
  \<open>transferPipePressurekPa\<close> with bytes 2 and 3. In particular, with bytes
  \<open>0xFF, 0xFF, 0x10, 0x00\<close> the first channel is not written, so it stays at the sentinel
  \<open>-999\<close> when it was there, and the second becomes \<open>0x0010 * 0.125 = 2\<close>. The frame
  counts as an update and the time stamp is refreshed.
\<close>

theorem turbo_press_channels_independent:
  assumes "extended frame" "j1939_get_source (id' frame) = 0x95"
    "j1939_get_pgn (id' frame) = 0xFE96"
    "data frame = [b0, b1, b2, b3, b4, b5, b6, b7]"
  shows "j1939_parse_message frame snapshot now =
           (True,
            snapshot\<lparr>cacInletPressurekPa :=
                       (if b0 = 0xFF \<and> b1 = 0xFF then cacInletPressurekPa snapshot
                        else real (unat b1 * 256 + unat b0) * 0.125),
                     transferPipePressurekPa :=
                       (if b2 = 0xFF \<and> b3 = 0xFF then transferPipePressurekPa snapshot
                        else real (unat b3 * 256 + unat b2) * 0.125),
                     lastUpdateMs := now\<rparr>) \<and>
         (b0 = 0xFF \<and> b1 = 0xFF \<and> b2 = 0x10 \<and> b3 = 0x00 \<longrightarrow>
            j1939_parse_message frame snapshot now =
              (True, snapshot\<lparr>transferPipePressurekPa := 2, lastUpdateMs := now\<rparr>) \<and>
            cacInletPressurekPa (snd (j1939_parse_message frame snapshot now)) =
              cacInletPressurekPa snapshot \<and>
            (cacInletPressurekPa snapshot = -999 \<longrightarrow>
               cacInletPressurekPa (snd (j1939_parse_message frame snapshot now)) = -999) \<and>
            transferPipePressurekPa (snd (j1939_parse_message frame snapshot now)) = 2)"
proof (rule conjI)
  show "j1939_parse_message frame snapshot now =
           (True,
            snapshot\<lparr>cacInletPressurekPa :=
                       (if b0 = 0xFF \<and> b1 = 0xFF then cacInletPressurekPa snapshot
                        else real (unat b1 * 256 + unat b0) * 0.125),
                     transferPipePressurekPa :=
                       (if b2 = 0xFF \<and> b3 = 0xFF then transferPipePressurekPa snapshot
                        else real (unat b3 * 256 + unat b2) * 0.125),
                     lastUpdateMs := now\<rparr>)"
    by (rule turbo_press_general [OF assms])
next
  show "b0 = 0xFF \<and> b1 = 0xFF \<and> b2 = 0x10 \<and> b3 = 0x00 \<longrightarrow>
            j1939_parse_message frame snapshot now =
              (True, snapshot\<lparr>transferPipePressurekPa := 2, lastUpdateMs := now\<rparr>) \<and>
            cacInletPressurekPa (snd (j1939_parse_message frame snapshot now)) =
              cacInletPressurekPa snapshot \<and>
            (cacInletPressurekPa snapshot = -999 \<longrightarrow>
               cacInletPressurekPa (snd (j1939_parse_message frame snapshot now)) = -999) \<and>
            transferPipePressurekPa (snd (j1939_parse_message frame snapshot now)) = 2"
  proof
    assume b: "b0 = 0xFF \<and> b1 = 0xFF \<and> b2 = 0x10 \<and> b3 = 0x00"
    then have d: "data frame = [0xFF, 0xFF, 0x10, 0x00, b4, b5, b6, b7]"
      using assms(4) by simp
    show "j1939_parse_message frame snapshot now =
              (True, snapshot\<lparr>transferPipePressurekPa := 2, lastUpdateMs := now\<rparr>) \<and>
            cacInletPressurekPa (snd (j1939_parse_message frame snapshot now)) =
              cacInletPressurekPa snapshot \<and>
            (cacInletPressurekPa snapshot = -999 \<longrightarrow>
               cacInletPressurekPa (snd (j1939_parse_message frame snapshot now)) = -999) \<and>
            transferPipePressurekPa (snd (j1939_parse_message frame snapshot now)) = 2"
      unfolding turbo_press_instance [OF assms(1-3) d] by simp
  qed
qed

text \<open>
  On the snapshot as \<open>main\<close> initialises it: the claim's payload; the payload
  \<open>10 00 FF 01\<close>, where both channels are decoded (2 and \<open>0x01FF * 0.125 = 63.875\<close>); and
  the payload \<open>10 00 FF FF\<close>, where only the first is.
\<close>

theorem turbo_press_channels_independent_witness:
  "j1939_parse_message
     \<lparr>id' = 0x18FE9695, len = 8, data = [0xFF, 0xFF, 0x10, 0x00, 0xFF, 0xFF, 0xFF, 0xFF],
      extended = True\<rparr> initial_sensor_data 1234 =
     (True, initial_sensor_data\<lparr>transferPipePressurekPa := 2, lastUpdateMs := 1234\<rparr>) \<and>
   cacInletPressurekPa initial_sensor_data = -999 \<and>
   cacInletPressurekPa (snd (j1939_parse_message
     \<lparr>id' = 0x18FE9695, len = 8, data = [0xFF, 0xFF, 0x10, 0x00, 0xFF, 0xFF, 0xFF, 0xFF],
      extended = True\<rparr> initial_sensor_data 1234)) = -999 \<and>
   j1939_parse_message
     \<lparr>id' = 0x18FE9695, len = 8, data = [0x10, 0x00, 0xFF, 0x01, 0xFF, 0xFF, 0xFF, 0xFF],
      extended = True\<rparr> initial_sensor_data 1234 =
     (True, initial_sensor_data\<lparr>cacInletPressurekPa := 2, transferPipePressurekPa := 63.875,
                               lastUpdateMs := 1234\<rparr>) \<and>
   j1939_parse_message
     \<lparr>id' = 0x18FE9695, len = 8, data = [0x10, 0x00, 0xFF, 0xFF, 0xFF, 0xFF, 0xFF, 0xFF],
      extended = True\<rparr> initial_sensor_data 1234 =
     (True, initial_sensor_data\<lparr>cacInletPressurekPa := 2, lastUpdateMs := 1234\<rparr>)"
proof -
  let ?f = "\<lambda>d. \<lparr>id' = 0x18FE9695, len = 8, data = d, extended = True\<rparr>"
  have a: "extended (?f d)" for d by simp
  have b: "j1939_get_source (id' (?f d)) = 0x95" for d by (simp add: j1939_get_source_def)
  have c: "j1939_get_pgn (id' (?f d)) = 0xFE96" for d by (simp add: j1939_get_pgn_def)
  have d1: "data (?f [0xFF, 0xFF, 0x10, 0x00, 0xFF, 0xFF, 0xFF, 0xFF]) =
              [0xFF, 0xFF, 0x10, 0x00, 0xFF, 0xFF, 0xFF, 0xFF]" by simp
  have d2: "data (?f [0x10, 0x00, 0xFF, 0x01, 0xFF, 0xFF, 0xFF, 0xFF]) =
              [0x10, 0x00, 0xFF, 0x01, 0xFF, 0xFF, 0xFF, 0xFF]" by simp
  have d3: "data (?f [0x10, 0x00, 0xFF, 0xFF, 0xFF, 0xFF, 0xFF, 0xFF]) =
              [0x10, 0x00, 0xFF, 0xFF, 0xFF, 0xFF, 0xFF, 0xFF]" by simp
  have e: "cacInletPressurekPa initial_sensor_data = -999" by (simp add: initial_sensor_data_def)
  show ?thesis
    using turbo_press_channels_independent [OF a b c d1, of initial_sensor_data 1234]
      turbo_press_channels_independent [OF a b c d2, of initial_sensor_data 1234]
      turbo_press_channels_independent [OF a b c d3, of initial_sensor_data 1234]
      e
    by simp
qed

text \<open>
  With a payload of all \<open>0xFF\<close>, every case of the decoder that writes fields stores
  the sentinel in each of them, PGN \<open>0xFE96\<close> apart: \<open>decode_temp_16bit_le\<close> tests the
  same \<open>0xFF, 0xFF\<close> pair and returns \<open>-999\<close>. PGN \<open>0xFE69\<close> writes no field.
\<close>

lemma all_ff_sibling_cases:
  assumes "extended frame" "j1939_get_source (id' frame) = 0x95"
    "data frame = replicate 8 0xFF"
  shows
    "(j1939_get_pgn (id' frame) = 0xFEF5 \<longrightarrow>
        j1939_parse_message frame snapshot now =
          (True, snapshot\<lparr>absoluteBarometricPressurekPa := -999, ambientTemperatureC := -999,
                          airInletTemperatureC := -999, lastUpdateMs := now\<rparr>)) \<and>
     (j1939_get_pgn (id' frame) = 0xFEF6 \<longrightarrow>
        j1939_parse_message frame snapshot now =
          (True, snapshot\<lparr>boostPressurekPa := -999, boostTemperatureC := -999,
                          airInletPressurekPa := -999, egtTemperatureC := -999,
                          lastUpdateMs := now\<rparr>)) \<and>
     (j1939_get_pgn (id' frame) = 0xFEEE \<longrightarrow>
        j1939_parse_message frame snapshot now =
          (True, snapshot\<lparr>coolantTemperatureC := -999, fuelTemperatureC := -999,
                          oilTemperatureC := -999, lastUpdateMs := now\<rparr>)) \<and>
     (j1939_get_pgn (id' frame) = 0xFEEF \<longrightarrow>
        j1939_parse_message frame snapshot now =
          (True, snapshot\<lparr>fuelPressurekPa := -999, oilPressurekPa := -999,
                          coolantPressurekPa := -999, lastUpdateMs := now\<rparr>)) \<and>
     (j1939_get_pgn (id' frame) = 0xFE69 \<longrightarrow>
        j1939_parse_message frame snapshot now = (True, snapshot\<lparr>lastUpdateMs := now\<rparr>)) \<and>
     (j1939_get_pgn (id' frame) = 0xFE95 \<longrightarrow>
        j1939_parse_message frame snapshot now =
          (True, snapshot\<lparr>cacInletTemperatureC := -999, transferPipeTemperatureC := -999,
                          lastUpdateMs := now\<rparr>)) \<and>
     (j1939_get_pgn (id' frame) = 65164 \<longrightarrow>
        j1939_parse_message frame snapshot now =
          (True, snapshot\<lparr>engineBayTemperatureC := -999, humidity := -999,
                          lastUpdateMs := now\<rparr>))"
  using assms
  by (simp add: j1939_parse_message_def OSSM_SOURCE_ADDRESS_def pgn_defs decode_defs
      replicate8 Let_def)

text \<open>
  C2 fails on the code for PGN \<open>0xFE96\<close>, one of the seven named data PGNs. With a
  payload of all \<open>0xFF\<close> the decoder reports an update and refreshes \<open>lastUpdateMs\<close>, as
  the claim says, but it writes neither \<open>cacInletPressurekPa\<close> nor
  \<open>transferPipePressurekPa\<close>: both keep whatever they held, where the claim (and every
  other case of the decoder) has the sentinel \<open>-999\<close>. The theorem is what the code does
  there, for every snapshot.
\<close>

theorem all_ff_turbo_press_not_reset:
  assumes "extended frame" "j1939_get_source (id' frame) = 0x95"
    "j1939_get_pgn (id' frame) = 0xFE96"
    "data frame = replicate 8 0xFF"
  shows "j1939_parse_message frame snapshot now = (True, snapshot\<lparr>lastUpdateMs := now\<rparr>) \<and>
         cacInletPressurekPa (snd (j1939_parse_message frame snapshot now)) =
           cacInletPressurekPa snapshot \<and>
         transferPipePressurekPa (snd (j1939_parse_message frame snapshot now)) =
           transferPipePressurekPa snapshot"
proof -
  have "j1939_parse_message frame snapshot now = (True, snapshot\<lparr>lastUpdateMs := now\<rparr>)"
    using assms
    by (simp add: j1939_parse_message_def OSSM_SOURCE_ADDRESS_def pgn_defs replicate8 Let_def)
  then show ?thesis by simp
qed

text \<open>
  The failing input: the frame \<open>0x18FE9695\<close> with all bytes \<open>0xFF\<close> on a snapshot whose
  \<open>cacInletPressurekPa\<close> is 2 (as after an earlier frame with bytes \<open>10 00\<close>). The
  field is still 2, not \<open>-999\<close>, and the snapshot is stamped as updated.
\<close>

theorem all_ff_turbo_press_not_reset_witness:
  "j1939_parse_message
     \<lparr>id' = 0x18FE9695, len = 8, data = replicate 8 0xFF, extended = True\<rparr>
     (initial_sensor_data\<lparr>cacInletPressurekPa := 2\<rparr>) 5000 =
     (True, initial_sensor_data\<lparr>cacInletPressurekPa := 2, lastUpdateMs := 5000\<rparr>) \<and>
   cacInletPressurekPa (snd (j1939_parse_message
     \<lparr>id' = 0x18FE9695, len = 8, data = replicate 8 0xFF, extended = True\<rparr>
     (initial_sensor_data\<lparr>cacInletPressurekPa := 2\<rparr>) 5000)) = 2 \<and>
   (2 :: real) \<noteq> -999"
proof -
  let ?t = "\<lparr>id' = 0x18FE9695, len = 8, data = replicate 8 0xFF, extended = True\<rparr>"
  have t: "extended ?t" "j1939_get_source (id' ?t) = 0x95"
    "j1939_get_pgn (id' ?t) = 0xFE96" "data ?t = replicate 8 0xFF"
    by (simp_all add: j1939_get_source_def j1939_get_pgn_def)
  show ?thesis
    using all_ff_turbo_press_not_reset [OF t, of "initial_sensor_data\<lparr>cacInletPressurekPa := 2\<rparr>" 5000]
    by simp
qed

text \<open>
  C8, as stated, fails for PGN 65164 (\<open>0xFE8C\<close>): it is not one of the seven data PGNs
  that types.h names, yet the decoder has a case for it, reports an update and writes
  the snapshot.
\<close>

theorem pgn_65164_counterexample:
  "j1939_get_pgn 0x18FE8C95 = 65164 \<and> 65164 \<notin> set data_pgns \<and>
   j1939_parse_message
     \<lparr>id' = 0x18FE8C95, len = 8,
      data = [0x41, 0xFF, 0xFF, 0xFF, 0xFF, 0xFF, 0xFF, 0xFF], extended = True\<rparr>
     initial_sensor_data 5000 =
     (True, initial_sensor_data\<lparr>engineBayTemperatureC := 25, lastUpdateMs := 5000\<rparr>) \<and>
   initial_sensor_data\<lparr>engineBayTemperatureC := 25, lastUpdateMs := 5000\<rparr>
     \<noteq> initial_sensor_data"
  by (simp add: j1939_parse_message_def j1939_get_source_def j1939_get_pgn_def
      OSSM_SOURCE_ADDRESS_def pgn_defs data_pgns_def decode_defs Let_def
      initial_sensor_data_def)

text \<open>
  C8, amended. For every frame that is not extended, or whose source is not \<open>0x95\<close>,
  or whose PGN is neither one of the seven named data PGNs nor 65164, the decoder
  reports no update and returns the snapshot as it was, time stamp included.
\<close>

theorem parse_message_rejects:
  assumes "\<not> extended frame \<or> j1939_get_source (id' frame) \<noteq> 0x95 \<or>
     (j1939_get_pgn (id' frame) \<notin> set data_pgns \<and> j1939_get_pgn (id' frame) \<noteq> 65164)"
  shows "j1939_parse_message frame snapshot now = (False, snapshot)"
  using assms
  by (auto simp: j1939_parse_message_def OSSM_SOURCE_ADDRESS_def data_pgns_def Let_def)

text \<open>
  One frame for each reason: not extended; source \<open>0x96\<close>; PGN \<open>0xFECA\<close>, which the
  decoder does not handle.
\<close>

theorem parse_message_rejects_witness:
  "j1939_parse_message
     \<lparr>id' = 0x18FEF595, len = 8, data = [80, 0, 0, 0, 0, 0, 0, 0], extended = False\<rparr>
     initial_sensor_data 5000 = (False, initial_sensor_data) \<and>
   j1939_parse_message
     \<lparr>id' = 0x18FEF596, len = 8, data = [80, 0, 0, 0, 0, 0, 0, 0], extended = True\<rparr>
     initial_sensor_data 5000 = (False, initial_sensor_data) \<and>
   j1939_parse_message
     \<lparr>id' = 0x18FECA95, len = 8, data = [80, 0, 0, 0, 0, 0, 0, 0], extended = True\<rparr>
     initial_sensor_data 5000 = (False, initial_sensor_data)"
proof -
  let ?a = "\<lparr>id' = 0x18FEF595, len = 8, data = [80, 0, 0, 0, 0, 0, 0, 0], extended = False\<rparr>"
  let ?b = "\<lparr>id' = 0x18FEF596, len = 8, data = [80, 0, 0, 0, 0, 0, 0, 0], extended = True\<rparr>"
  let ?c = "\<lparr>id' = 0x18FECA95, len = 8, data = [80, 0, 0, 0, 0, 0, 0, 0], extended = True\<rparr>"
  have a: "\<not> extended ?a \<or> j1939_get_source (id' ?a) \<noteq> 0x95 \<or>
     (j1939_get_pgn (id' ?a) \<notin> set data_pgns \<and> j1939_get_pgn (id' ?a) \<noteq> 65164)"
    by simp
  have b: "\<not> extended ?b \<or> j1939_get_source (id' ?b) \<noteq> 0x95 \<or>
     (j1939_get_pgn (id' ?b) \<notin> set data_pgns \<and> j1939_get_pgn (id' ?b) \<noteq> 65164)"
    by (simp add: j1939_get_source_def)
  have c: "\<not> extended ?c \<or> j1939_get_source (id' ?c) \<noteq> 0x95 \<or>
     (j1939_get_pgn (id' ?c) \<notin> set data_pgns \<and> j1939_get_pgn (id' ?c) \<noteq> 65164)"
    by (simp add: j1939_get_pgn_def data_pgns_def pgn_defs)
  show ?thesis
    using parse_message_rejects [OF a, of initial_sensor_data 5000]
      parse_message_rejects [OF b, of initial_sensor_data 5000]
      parse_message_rejects [OF c, of initial_sensor_data 5000]
    by simp
qed

section \<open>Facts about the command/response engine\<close>

text \<open>One poll whose outcome fails the test: 5 ms of sleep, and the loop goes on.\<close>

lemma loop_reject:
  assumes "elapsed < 1000" "\<not> accepted e (rx sock (rx_pos sock))"
  shows "check_response_loop sock e rd rl elapsed =
         check_response_loop (sock\<lparr>rx_pos := rx_pos sock + 1, slept_us := slept_us sock + 5000\<rparr>)
           e rd rl (elapsed + 5)"
  using assms
  by (subst check_response_loop.simps)
     (auto simp: socketcan_receive_def usleep_def accepted_def Let_def split: rx_result.splits)

text \<open>\<open>n\<close> such polls in a row, by induction on \<open>n\<close>.\<close>

lemma loop_skip:
  "\<forall>j<n. \<not> accepted e (rx sock (rx_pos sock + j)) \<Longrightarrow> elapsed + 5 * int n < 1005 \<Longrightarrow>
   check_response_loop sock e rd rl elapsed =
   check_response_loop (sock\<lparr>rx_pos := rx_pos sock + n, slept_us := slept_us sock + 5000 * n\<rparr>)
     e rd rl (elapsed + 5 * int n)"
proof (induction n arbitrary: sock elapsed)
  case 0
  then show ?case by simp
next
  case (Suc n)
  let ?s1 = "sock\<lparr>rx_pos := rx_pos sock + 1, slept_us := slept_us sock + 5000\<rparr>"
  from Suc.prems have first: "\<not> accepted e (rx sock (rx_pos sock))" by auto
  from Suc.prems have el: "elapsed < 1000" by simp
  have rest: "\<forall>j<n. \<not> accepted e (rx ?s1 (rx_pos ?s1 + j))"
    using Suc.prems(1) by (auto simp: less_Suc_eq_0_disj)
  have "check_response_loop sock e rd rl elapsed = check_response_loop ?s1 e rd rl (elapsed + 5)"
    by (rule loop_reject [OF el first])
  also have "\<dots> = check_response_loop (?s1\<lparr>rx_pos := rx_pos ?s1 + n, slept_us := slept_us ?s1 + 5000 * n\<rparr>)
     e rd rl (elapsed + 5 + 5 * int n)"
    using Suc.prems(2) by (intro Suc.IH [OF rest]) simp
  finally show ?case by (simp add: algebra_simps)
qed

text \<open>A poll whose outcome passes the test ends the loop, with no sleep after it.\<close>

lemma loop_accept:
  assumes "elapsed < 1000" "rx sock (rx_pos sock) = Received f" "accepted e (Received f)"
  shows "check_response_loop sock e rd rl elapsed =
         (sock\<lparr>rx_pos := rx_pos sock + 1\<rparr>, uint (data f ! 1),
          (case (rd, rl) of (Some buf, Some l) \<Rightarrow> Some (memcpy buf 0 (drop 2 (data f)) 6) | _ \<Rightarrow> rd),
          (case (rd, rl) of (Some buf, Some l) \<Rightarrow> Some 6 | _ \<Rightarrow> rl))"
  using assms
  by (subst check_response_loop.simps)
     (auto simp: socketcan_receive_def accepted_def Let_def split: option.splits)

text \<open>The value returned is the time-out \<open>-1\<close> or a byte.\<close>

lemma loop_range:
  "fst (snd (check_response_loop sock e rd rl elapsed)) = -1 \<or>
   (0 \<le> fst (snd (check_response_loop sock e rd rl elapsed)) \<and>
    fst (snd (check_response_loop sock e rd rl elapsed)) \<le> 255)"
proof (induction sock e rd rl elapsed rule: check_response_loop.induct)
  case (1 sock e rd rl elapsed)
  have b: "uint (w :: u8) \<le> 255" for w using uint_lt2p [of w] by simp
  show ?case
    apply (subst (1 2 3) check_response_loop.simps)
    using 1 b
    apply (auto simp: Let_def split: prod.splits rx_result.splits option.splits)
    done
qed

text \<open>Waiting for a response sends nothing.\<close>

lemma loop_sent:
  "sent (fst (check_response_loop sock e rd rl elapsed)) = sent sock"
proof (induction sock e rd rl elapsed rule: check_response_loop.induct)
  case (1 sock e rd rl elapsed)
  show ?case
    apply (subst check_response_loop.simps)
    using 1
    apply (auto simp: Let_def socketcan_receive_def usleep_def split: prod.splits rx_result.splits option.splits)
    done
qed

text \<open>The whole call when the \<open>k\<close>-th poll is the first that passes the test.\<close>

lemma first_match:
  assumes k: "k < 200"
    and skip: "\<forall>j<k. \<not> accepted e (rx sock (rx_pos sock + j))"
    and f: "rx sock (rx_pos sock + k) = Received f" and acc: "accepted e (Received f)"
  shows "j1939_check_response sock e rd rl =
     (sock\<lparr>rx_pos := rx_pos sock + k + 1, slept_us := slept_us sock + 50000 + 5000 * k\<rparr>,
      uint (data f ! 1),
      (case (rd, rl) of (Some buf, Some l) \<Rightarrow> Some (memcpy buf 0 (drop 2 (data f)) 6) | _ \<Rightarrow> rd),
      (case (rd, rl) of (Some buf, Some l) \<Rightarrow> Some 6 | _ \<Rightarrow> rl))"
proof -
  let ?s0 = "usleep 50000 sock"
  let ?s1 = "?s0\<lparr>rx_pos := rx_pos ?s0 + k, slept_us := slept_us ?s0 + 5000 * k\<rparr>"
  have skip0: "\<forall>j<k. \<not> accepted e (rx ?s0 (rx_pos ?s0 + j))"
    using skip by (simp add: usleep_def)
  have "check_response_loop ?s0 e rd rl 0 = check_response_loop ?s1 e rd rl (0 + 5 * int k)"
    using k by (intro loop_skip [OF skip0]) simp
  also have "\<dots> = (?s1\<lparr>rx_pos := rx_pos ?s1 + 1\<rparr>, uint (data f ! 1),
      (case (rd, rl) of (Some buf, Some l) \<Rightarrow> Some (memcpy buf 0 (drop 2 (data f)) 6) | _ \<Rightarrow> rd),
      (case (rd, rl) of (Some buf, Some l) \<Rightarrow> Some 6 | _ \<Rightarrow> rl))"
    using k f acc by (intro loop_accept) (simp_all add: usleep_def)
  finally show ?thesis
    by (simp add: j1939_check_response_def usleep_def add.commute)
qed

text \<open>The whole call when none of the 200 polls passes the test.\<close>

lemma no_match:
  assumes skip: "\<forall>j<200. \<not> accepted e (rx sock (rx_pos sock + j))"
  shows "j1939_check_response sock e rd rl =
     (sock\<lparr>rx_pos := rx_pos sock + 200, slept_us := slept_us sock + 1050000\<rparr>, -1, rd, rl)"
proof -
  let ?s0 = "usleep 50000 sock"
  let ?s1 = "?s0\<lparr>rx_pos := rx_pos ?s0 + 200, slept_us := slept_us ?s0 + 5000 * 200\<rparr>"
  have skip0: "\<forall>j<200. \<not> accepted e (rx ?s0 (rx_pos ?s0 + j))"
    using skip by (simp add: usleep_def)
  have "check_response_loop ?s0 e rd rl 0 = check_response_loop ?s1 e rd rl (0 + 5 * int 200)"
    by (intro loop_skip [OF skip0]) simp
  also have "\<dots> = (?s1, -1, rd, rl)"
    by (subst check_response_loop.simps) simp
  finally show ?thesis
    by (simp add: j1939_check_response_def usleep_def)
qed

lemma list8:
  "length xs = 8 \<Longrightarrow> \<exists>a0 a1 a2 a3 a4 a5 a6 a7. xs = [a0, a1, a2, a3, a4, a5, a6, a7]"
  by (auto simp: eval_nat_numeral length_Suc_conv)

lemma memcpy_block:
  assumes "length d = 8" "length buf = 6"
  shows "memcpy buf 0 (drop 2 d) 6 = [d ! 2, d ! 3, d ! 4, d ! 5, d ! 6, d ! 7]"
proof -
  from list8 [OF assms(1)] obtain a0 a1 a2 a3 a4 a5 a6 a7
    where d: "d = [a0, a1, a2, a3, a4, a5, a6, a7]" by blast
  show ?thesis using assms(2) by (simp add: memcpy_def d)
qed

text \<open>
  C4. A polled frame is accepted only if its PGN is \<open>0xFF01\<close>, its source is \<open>0x95\<close>
  and its first payload byte is \<open>expected_cmd\<close>. Outcomes that fail the test (frames
  failing one of the three conditions, polls without data, receive errors) are dropped
  and polling goes on; at the first frame that passes, within the 200 polls of the
  window, the function returns payload byte 1 as the protocol error code and copies
  payload bytes 2 to 7 into the caller's 6-byte block, setting the length to 6 (with
  \<open>NULL\<close> buffers it returns the same code and copies nothing).
\<close>

theorem check_response_first_match:
  assumes "k < 200"
    and "\<forall>j<k. \<not> accepted expected_cmd (rx sock (rx_pos sock + j))"
    and "rx sock (rx_pos sock + k) = Received frame"
    and "j1939_get_pgn (id' frame) = 0xFF01"
    and "j1939_get_source (id' frame) = 0x95"
    and "data frame ! 0 = expected_cmd"
    and "length (data frame) = 8" and "length buf = 6"
  shows "j1939_check_response sock expected_cmd (Some buf) (Some l) =
           (sock\<lparr>rx_pos := rx_pos sock + k + 1,
                  slept_us := slept_us sock + 50000 + 5000 * k\<rparr>,
            uint (data frame ! 1),
            Some [data frame ! 2, data frame ! 3, data frame ! 4,
                  data frame ! 5, data frame ! 6, data frame ! 7],
            Some 6) \<and>
         j1939_check_response sock expected_cmd None None =
           (sock\<lparr>rx_pos := rx_pos sock + k + 1,
                  slept_us := slept_us sock + 50000 + 5000 * k\<rparr>,
            uint (data frame ! 1), None, None)"
proof -
  have acc: "accepted expected_cmd (Received frame)"
    using assms(4-6) by (simp add: accepted_def PGN_OSSM_RESPONSE_def OSSM_SOURCE_ADDRESS_def)
  show ?thesis
    using first_match [OF assms(1-3) acc, of "Some buf" "Some l"]
      first_match [OF assms(1-3) acc, of None None]
      memcpy_block [OF assms(7,8)]
    by simp
qed

text \<open>On \<open>busy_bus\<close> the first three outcomes are dropped and the fourth is accepted.\<close>

theorem check_response_first_match_witness:
  "j1939_check_response busy_bus 0x05 (Some [0, 0, 0, 0, 0, 0]) (Some 0) =
     (busy_bus\<lparr>rx_pos := 4, slept_us := 65000\<rparr>, 0, Some [4, 2, 1, 0, 0xFF, 0xFF], Some 6)"
proof -
  let ?f = "reply_frame [0x05, 0x00, 4, 2, 1, 0, 0xFF, 0xFF]"
  have k: "(3::nat) < 200" by simp
  have skip: "\<forall>j<3. \<not> accepted 0x05 (rx busy_bus (rx_pos busy_bus + j))"
    by (simp add: busy_bus_def accepted_def reply_frame_def j1939_get_pgn_def
        j1939_get_source_def pgn_defs OSSM_SOURCE_ADDRESS_def less_Suc_eq numeral_3_eq_3)
  have f: "rx busy_bus (rx_pos busy_bus + 3) = Received ?f" by (simp add: busy_bus_def)
  have p: "j1939_get_pgn (id' ?f) = 0xFF01" by (simp add: reply_frame_def j1939_get_pgn_def)
  have s: "j1939_get_source (id' ?f) = 0x95" by (simp add: reply_frame_def j1939_get_source_def)
  have c: "data ?f ! 0 = 0x05" by (simp add: reply_frame_def)
  have l8: "length (data ?f) = 8" by (simp add: reply_frame_def)
  have l6: "length [0, 0, 0, 0, 0, 0 :: u8] = 6" by simp
  have "rx_pos busy_bus = 0" "slept_us busy_bus = 0" by (simp_all add: busy_bus_def)
  then show ?thesis
    using check_response_first_match [OF k skip f p s c l8 l6, of 0]
    by (simp add: reply_frame_def)
qed

text \<open>
  C6. When none of the 200 polls of the window yields a matching frame,
  \<open>j1939_check_response\<close> returns the time-out value \<open>-1\<close> after exactly 200 polls,
  having asked \<open>usleep\<close> for 50 ms once and for 5 ms after each poll, 1.05 s in all, and
  leaves the caller's buffers alone. Whatever arrives, the value returned is \<open>-1\<close> or
  non-negative, so the time-out differs from every protocol error code.
\<close>

theorem check_response_timeout:
  "((\<forall>j<200. \<not> accepted expected_cmd (rx sock (rx_pos sock + j))) \<longrightarrow>
      j1939_check_response sock expected_cmd response_data response_len =
        (sock\<lparr>rx_pos := rx_pos sock + 200, slept_us := slept_us sock + 1050000\<rparr>,
         -1, response_data, response_len)) \<and>
   (fst (snd (j1939_check_response sock expected_cmd response_data response_len)) = -1 \<or>
    0 \<le> fst (snd (j1939_check_response sock expected_cmd response_data response_len)))"
  using no_match [of expected_cmd sock response_data response_len]
    loop_range [of "usleep 50000 sock" expected_cmd response_data response_len 0]
  by (auto simp: j1939_check_response_def)

text \<open>The time-out on \<open>quiet_bus\<close>.\<close>

theorem check_response_timeout_witness:
  "j1939_check_response quiet_bus 0x05 None None =
     (quiet_bus\<lparr>rx_pos := 200, slept_us := 1050000\<rparr>, -1, None, None)"
proof -
  have h: "\<forall>j<200. \<not> accepted 0x05 (rx quiet_bus (rx_pos quiet_bus + j))"
    by (simp add: quiet_bus_def accepted_def)
  have "rx_pos quiet_bus = 0" "slept_us quiet_bus = 0" by (simp_all add: quiet_bus_def)
  then show ?thesis
    using h check_response_timeout [of "0x05" quiet_bus None None] by simp
qed

text \<open>The frame that \<open>j1939_send_command\<close> hands to the transport.\<close>

lemma replicate8_upd: "(replicate 8 (x :: u8))[0 := c] = c # replicate 7 x"
proof -
  have "replicate 8 x = replicate (Suc 7) x" by simp
  also have "\<dots> = x # replicate 7 x" by (rule replicate_Suc)
  finally show ?thesis by simp
qed

lemma send_command_Some:
  "j1939_send_command sock cmd (Some ps) param_len =
     (sock\<lparr>sent := sent sock @
        [\<lparr>id' = j1939_build_id 0xFF00 6 0, len = 8,
          data = cmd_code cmd # take (min 7 (unat param_len)) ps @
                 replicate (7 - min 7 (unat param_len)) 0xFF,
          extended = True\<rparr>]\<rparr>,
      if tx_ok sock (length (sent sock)) then 0 else -1)"
proof (cases "param_len = 0")
  case True
  then show ?thesis
    by (simp add: j1939_send_command_def socketcan_send_def PGN_OSSM_COMMAND_def
        replicate8_upd)
next
  case False
  then have pos: "0 < param_len" by (simp add: word_greater_zero_iff)
  have m: "unat (if 7 < param_len then 7 else param_len) = min 7 (unat param_len)"
    by (auto simp: word_less_nat_alt min_def)
  show ?thesis
    using pos
    by (simp add: j1939_send_command_def socketcan_send_def PGN_OSSM_COMMAND_def Let_def
        memcpy_def m replicate8_upd)
qed

lemma check_response_sent:
  "sent (fst (j1939_check_response sock e rd rl)) = sent sock"
  by (simp add: j1939_check_response_def loop_sent usleep_def)

lemma check_response_sentD:
  "j1939_check_response sock e rd rl = (sock', rest) \<Longrightarrow> sent sock' = sent sock"
  using check_response_sent [of sock e rd rl] by simp

text \<open>
  C3. \<open>j1939_enable_spn\<close> with SPN 175, \<open>enable = true\<close> and input 3 hands exactly one
  frame to the transport, whatever the bus does: extended, length 8, payload
  \<open>01 00 AF 01 03 FF FF FF\<close>, identifier with PGN \<open>0xFF00\<close>, priority 6 and source 0.
  In general \<open>j1939_send_command\<close> sends the command byte, then at most 7 parameter
  bytes, then \<open>0xFF\<close> up to 8 bytes.
\<close>

theorem enable_spn_175_frame:
  "sent (fst (j1939_enable_spn sock 175 True 3)) =
     sent sock @
       [\<lparr>id' = j1939_build_id 0xFF00 6 0, len = 8,
         data = [0x01, 0x00, 0xAF, 0x01, 0x03, 0xFF, 0xFF, 0xFF], extended = True\<rparr>] \<and>
   j1939_get_pgn (j1939_build_id 0xFF00 6 0) = 0xFF00 \<and>
   drop_bit 26 (j1939_build_id 0xFF00 6 0) = 6 \<and>
   j1939_get_source (j1939_build_id 0xFF00 6 0) = 0 \<and>
   sent (fst (j1939_send_command sock cmd (Some ps) param_len)) =
     sent sock @
       [\<lparr>id' = j1939_build_id 0xFF00 6 0, len = 8,
         data = cmd_code cmd # take (min 7 (unat param_len)) ps @
                replicate (7 - min 7 (unat param_len)) 0xFF,
         extended = True\<rparr>]"
proof -
  have params: "[ucast (drop_bit 8 (175 :: u16) AND 0xFF), ucast ((175 :: u16) AND 0xFF),
                 if True then 1 else 0, 3] = [0x00, 0xAF, 0x01, 0x03 :: u8]"
    by simp
  have pay: "cmd_code CMD_ENABLE_SPN # take (min 7 (unat (4 :: u8))) [0x00, 0xAF, 0x01, 0x03 :: u8] @
               replicate (7 - min 7 (unat (4 :: u8))) 0xFF
             = [0x01, 0x00, 0xAF, 0x01, 0x03, 0xFF, 0xFF, 0xFF]"
    by (simp add: numeral_3_eq_3)
  have "sent (fst (j1939_enable_spn sock 175 True 3)) =
     sent sock @
       [\<lparr>id' = j1939_build_id 0xFF00 6 0, len = 8,
         data = [0x01, 0x00, 0xAF, 0x01, 0x03, 0xFF, 0xFF, 0xFF], extended = True\<rparr>]"
    unfolding j1939_enable_spn_def Let_def params send_command_Some pay
    by (auto split: prod.splits dest: check_response_sentD)
  moreover have "j1939_get_pgn (j1939_build_id 0xFF00 6 0) = 0xFF00"
    by (simp add: j1939_build_id_def j1939_get_pgn_def)
  moreover have "drop_bit 26 (j1939_build_id 0xFF00 6 0) = 6"
    by (simp add: j1939_build_id_def)
  moreover have "j1939_get_source (j1939_build_id 0xFF00 6 0) = 0"
    by (simp add: j1939_build_id_def j1939_get_source_def)
  ultimately show ?thesis
    by (simp add: send_command_Some)
qed

text \<open>On \<open>quiet_bus\<close>, where no response comes, the one frame is sent all the same.\<close>

theorem enable_spn_175_frame_witness:
  "sent (fst (j1939_enable_spn quiet_bus 175 True 3)) =
     [\<lparr>id' = 0x18FF0000, len = 8,
       data = [0x01, 0x00, 0xAF, 0x01, 0x03, 0xFF, 0xFF, 0xFF], extended = True\<rparr>]"
  using enable_spn_175_frame [of quiet_bus CMD_SAVE "[]" 0]
  by (simp add: quiet_bus_def j1939_build_id_def)

section \<open>Facts about the high-level operations\<close>

text \<open>
  C10. When \<open>j1939_query_config\<close> returns a value other than 0 (a failed send, a
  time-out or a protocol error code), the caller's configuration state is what it was.
  When it returns 0, at most the two counts and the two flags are written;
  \<open>sourceAddress\<close> and \<open>thermocoupleType\<close> are never written.
\<close>

theorem query_config_failure_keeps_state:
  "(fst (snd (j1939_query_config sock state response len')) \<noteq> 0 \<longrightarrow>
      snd (snd (j1939_query_config sock state response len')) = state) \<and>
   (fst (snd (j1939_query_config sock state response len')) = 0 \<longrightarrow>
      (\<exists>tc pc egt bme.
         snd (snd (j1939_query_config sock state response len')) =
           map_option (\<lambda>st. st\<lparr>tempCount := tc, pressureCount := pc,
                                   egtEnabled := egt, bme280Enabled := bme\<rparr>) state))"
  by (auto simp: j1939_query_config_def Let_def split: prod.splits option.splits)

text \<open>On \<open>error_bus\<close> the query is answered with error code 8.\<close>

lemma query_config_error_bus:
  "fst (snd (j1939_query_config error_bus (Some some_config) [0, 0, 0, 0, 0, 0] 0)) = 8"
proof -
  let ?f = "reply_frame [0x05, 0x08, 0xFF, 0xFF, 0xFF, 0xFF, 0xFF, 0xFF]"
  obtain s1 where s1: "j1939_send_command error_bus CMD_QUERY (Some [0]) 1 = (s1, 0)"
    and rx1: "rx s1 = rx error_bus" "rx_pos s1 = 0"
    by (simp add: send_command_Some error_bus_def)
  have acc: "accepted (cmd_code CMD_QUERY) (Received ?f)"
    by (simp add: accepted_def reply_frame_def j1939_get_pgn_def j1939_get_source_def
        pgn_defs OSSM_SOURCE_ADDRESS_def)
  have f: "rx s1 (rx_pos s1 + 0) = Received ?f"
    unfolding rx1 by (simp add: error_bus_def)
  have "fst (snd (j1939_check_response s1 (cmd_code CMD_QUERY) (Some [0, 0, 0, 0, 0, 0]) (Some 0)))
        = uint (data ?f ! 1)"
    by (subst first_match [of 0 _ _ ?f, OF _ _ f acc]) simp_all
  then show ?thesis
    unfolding j1939_query_config_def Let_def s1
    by (auto simp: reply_frame_def split: prod.splits)
qed

text \<open>So the configuration state passed in comes back unchanged.\<close>

theorem query_config_failure_keeps_state_witness:
  "fst (snd (j1939_query_config error_bus (Some some_config) [0, 0, 0, 0, 0, 0] 0)) = 8 \<and>
   snd (snd (j1939_query_config error_bus (Some some_config) [0, 0, 0, 0, 0, 0] 0)) =
     Some some_config"
  using query_config_failure_keeps_state [of error_bus "Some some_config" "[0, 0, 0, 0, 0, 0]" 0]
    query_config_error_bus
  by simp

text \<open>Sending a query.\<close>

lemma command_id: "j1939_build_id 0xFF00 6 0 = 0x18FF0000"
  by (simp add: j1939_build_id_def)

lemma send_query:
  "j1939_send_command sock CMD_QUERY (Some [t, sq]) 2 =
     (sock\<lparr>sent := sent sock @ [query_frame t sq]\<rparr>,
      if tx_ok sock (length (sent sock)) then 0 else -1)"
proof -
  have "replicate 5 (0xFF :: u8) = [0xFF, 0xFF, 0xFF, 0xFF, 0xFF]"
    by (simp add: numeral_eq_Suc)
  then show ?thesis
    by (simp add: send_command_Some query_frame_def command_id)
qed

lemma send_query_sent:
  "j1939_send_command sock CMD_QUERY (Some [t, sq]) 2 = (sock', e) \<Longrightarrow>
   sent sock' = sent sock @ [query_frame t sq]"
  by (auto simp: send_query)

text \<open>Storing temperature SPNs leaves the pressure slots alone.\<close>

lemma parse_temp_spns_pres:
  "presSpns (parse_temp_spns sq response a i) = presSpns a"
proof (induction sq response a i rule: parse_temp_spns.induct)
  case (1 sq response a i)
  show ?case
    apply (subst parse_temp_spns.simps)
    using 1
    apply (auto simp: Let_def)
    done
qed

text \<open>
  One turn of the temperature loop, by what its send and its \<open>j1939_check_response\<close>
  give: a failed send returns \<open>-1\<close>, a nonzero response code returns that code, both
  with the table as it is; a zero code stores the response and goes on to the next
  sub-query.
\<close>

lemma temp_step_send_fails:
  assumes "sq < 3"
    and "j1939_send_command s CMD_QUERY (Some [1, sq]) 2 = (t, e)" and "e < 0"
  shows "query_temp_spns s a resp l sq = Inl (t, -1, a)"
  using assms by (subst query_temp_spns.simps) simp

lemma temp_step_check_fails:
  assumes "sq < 3"
    and "j1939_send_command s CMD_QUERY (Some [1, sq]) 2 = (t, e)" and "\<not> e < 0"
    and "j1939_check_response t (cmd_code CMD_QUERY) (Some resp) (Some l) = (s', r, d, l')"
    and "r \<noteq> 0"
  shows "query_temp_spns s a resp l sq = Inl (s', r, a)"
  using assms by (subst query_temp_spns.simps) simp

lemma temp_step_ok:
  assumes "sq < 3"
    and "j1939_send_command s CMD_QUERY (Some [1, sq]) 2 = (t, e)" and "\<not> e < 0"
    and "j1939_check_response t (cmd_code CMD_QUERY) (Some resp) (Some l) = (s', 0, d, l')"
  shows "query_temp_spns s a resp l sq =
         query_temp_spns s' (parse_temp_spns sq (the d) a 0) (the d) (the l') (sq + 1)"
  using assms by (subst query_temp_spns.simps) simp

text \<open>A \<open>return\<close> inside the temperature loop is the result of the whole query.\<close>

lemma query_spn_assignments_Inl:
  "query_temp_spns sock (assignments\<lparr>tempSpns := replicate 8 0, presSpns := replicate 7 0\<rparr>)
     response len' 0 = Inl ret \<Longrightarrow>
   j1939_query_spn_assignments sock assignments response len' = ret"
  by (simp add: j1939_query_spn_assignments_def)

text \<open>
  C5. A temperature sub-query fails when its send fails or when
  \<open>j1939_check_response\<close> returns a nonzero value for it (the time-out \<open>-1\<close> or a
  protocol error code), the sub-queries before it having completed (send not failed,
  response code 0). For each of the three sub-queries and each of the two ways to
  fail, \<open>j1939_query_spn_assignments\<close> returns at once: \<open>-1\<close> for a failed send, else the
  code that \<open>j1939_check_response\<close> returned. The socket is the one the failing step
  left, on which nothing but the temperature queries up to the failing one has been
  sent, so no pressure sub-query was issued. The table has all 7 pressure slots at 0
  and its temperature slots as the completed sub-queries filled them (zeros from the
  \<open>memset\<close> where none did): nothing is rolled back.
\<close>

theorem spn_assignments_temp_failure:
  "(j1939_send_command sock CMD_QUERY (Some [1, 0]) 2 = (t0, e0) \<and> e0 < 0 \<longrightarrow>
      j1939_query_spn_assignments sock assignments response len' =
        (t0, -1, assignments\<lparr>tempSpns := replicate 8 0, presSpns := replicate 7 0\<rparr>) \<and>
      sent t0 = sent sock @ [query_frame 1 0]) \<and>
   (j1939_send_command sock CMD_QUERY (Some [1, 0]) 2 = (t0, e0) \<and> \<not> e0 < 0 \<and>
    j1939_check_response t0 (cmd_code CMD_QUERY) (Some response) (Some len') = (s1, r1, d1, l1) \<and>
    r1 \<noteq> 0 \<longrightarrow>
      j1939_query_spn_assignments sock assignments response len' =
        (s1, r1, assignments\<lparr>tempSpns := replicate 8 0, presSpns := replicate 7 0\<rparr>) \<and>
      sent s1 = sent sock @ [query_frame 1 0]) \<and>
   (j1939_send_command sock CMD_QUERY (Some [1, 0]) 2 = (t0, e0) \<and> \<not> e0 < 0 \<and>
    j1939_check_response t0 (cmd_code CMD_QUERY) (Some response) (Some len') = (s1, 0, d1, l1) \<and>
    j1939_send_command s1 CMD_QUERY (Some [1, 1]) 2 = (t1, e1) \<and> e1 < 0 \<longrightarrow>
      j1939_query_spn_assignments sock assignments response len' =
        (t1, -1,
         parse_temp_spns 0 (the d1)
           (assignments\<lparr>tempSpns := replicate 8 0, presSpns := replicate 7 0\<rparr>) 0) \<and>
      presSpns (snd (snd (j1939_query_spn_assignments sock assignments response len'))) =
        replicate 7 0 \<and>
      sent t1 = sent sock @ [query_frame 1 0, query_frame 1 1]) \<and>
   (j1939_send_command sock CMD_QUERY (Some [1, 0]) 2 = (t0, e0) \<and> \<not> e0 < 0 \<and>
    j1939_check_response t0 (cmd_code CMD_QUERY) (Some response) (Some len') = (s1, 0, d1, l1) \<and>
    j1939_send_command s1 CMD_QUERY (Some [1, 1]) 2 = (t1, e1) \<and> \<not> e1 < 0 \<and>
    j1939_check_response t1 (cmd_code CMD_QUERY) (Some (the d1)) (Some (the l1)) = (s2, r2, d2, l2) \<and>
    r2 \<noteq> 0 \<longrightarrow>
      j1939_query_spn_assignments sock assignments response len' =
        (s2, r2,
         parse_temp_spns 0 (the d1)
           (assignments\<lparr>tempSpns := replicate 8 0, presSpns := replicate 7 0\<rparr>) 0) \<and>
      presSpns (snd (snd (j1939_query_spn_assignments sock assignments response len'))) =
        replicate 7 0 \<and>
      sent s2 = sent sock @ [query_frame 1 0, query_frame 1 1]) \<and>
   (j1939_send_command sock CMD_QUERY (Some [1, 0]) 2 = (t0, e0) \<and> \<not> e0 < 0 \<and>
    j1939_check_response t0 (cmd_code CMD_QUERY) (Some response) (Some len') = (s1, 0, d1, l1) \<and>
    j1939_send_command s1 CMD_QUERY (Some [1, 1]) 2 = (t1, e1) \<and> \<not> e1 < 0 \<and>
    j1939_check_response t1 (cmd_code CMD_QUERY) (Some (the d1)) (Some (the l1)) = (s2, 0, d2, l2) \<and>
    j1939_send_command s2 CMD_QUERY (Some [1, 2]) 2 = (t2, e2) \<and> e2 < 0 \<longrightarrow>
      j1939_query_spn_assignments sock assignments response len' =
        (t2, -1,
         parse_temp_spns 1 (the d2)
           (parse_temp_spns 0 (the d1)
              (assignments\<lparr>tempSpns := replicate 8 0, presSpns := replicate 7 0\<rparr>) 0) 0) \<and>
      presSpns (snd (snd (j1939_query_spn_assignments sock assignments response len'))) =
        replicate 7 0 \<and>
      sent t2 = sent sock @ [query_frame 1 0, query_frame 1 1, query_frame 1 2]) \<and>
   (j1939_send_command sock CMD_QUERY (Some [1, 0]) 2 = (t0, e0) \<and> \<not> e0 < 0 \<and>
    j1939_check_response t0 (cmd_code CMD_QUERY) (Some response) (Some len') = (s1, 0, d1, l1) \<and>
    j1939_send_command s1 CMD_QUERY (Some [1, 1]) 2 = (t1, e1) \<and> \<not> e1 < 0 \<and>
    j1939_check_response t1 (cmd_code CMD_QUERY) (Some (the d1)) (Some (the l1)) = (s2, 0, d2, l2) \<and>
    j1939_send_command s2 CMD_QUERY (Some [1, 2]) 2 = (t2, e2) \<and> \<not> e2 < 0 \<and>
    j1939_check_response t2 (cmd_code CMD_QUERY) (Some (the d2)) (Some (the l2)) = (s3, r3, d3, l3) \<and>
    r3 \<noteq> 0 \<longrightarrow>
      j1939_query_spn_assignments sock assignments response len' =
        (s3, r3,
         parse_temp_spns 1 (the d2)
           (parse_temp_spns 0 (the d1)
              (assignments\<lparr>tempSpns := replicate 8 0, presSpns := replicate 7 0\<rparr>) 0) 0) \<and>
      presSpns (snd (snd (j1939_query_spn_assignments sock assignments response len'))) =
        replicate 7 0 \<and>
      sent s3 = sent sock @ [query_frame 1 0, query_frame 1 1, query_frame 1 2])"
proof -
  let ?z = "assignments\<lparr>tempSpns := replicate 8 0, presSpns := replicate 7 0\<rparr>"
  let ?R = "j1939_query_spn_assignments sock assignments response len'"
  have lt: "(0 :: u8) < 3" "(1 :: u8) < 3" "(2 :: u8) < 3" "(0 :: u8) + 1 = 1" "(1 :: u8) + 1 = 2"
    by simp_all
  have leaf1: "?R = (t0, -1, ?z) \<and> sent t0 = sent sock @ [query_frame 1 0]"
    if a: "j1939_send_command sock CMD_QUERY (Some [1, 0]) 2 = (t0, e0)" and b: "e0 < 0"
    using query_spn_assignments_Inl [OF temp_step_send_fails [OF lt(1) a b]]
      send_query_sent [OF a] by simp
  have leaf2: "?R = (s1, r1, ?z) \<and> sent s1 = sent sock @ [query_frame 1 0]"
    if a: "j1939_send_command sock CMD_QUERY (Some [1, 0]) 2 = (t0, e0)" and b: "\<not> e0 < 0"
      and c: "j1939_check_response t0 (cmd_code CMD_QUERY) (Some response) (Some len') = (s1, r1, d1, l1)"
      and d: "r1 \<noteq> 0"
    using query_spn_assignments_Inl [OF temp_step_check_fails [OF lt(1) a b c d]]
      send_query_sent [OF a] check_response_sentD [OF c] by simp
  have sub1: "query_temp_spns sock ?z response len' 0 =
      query_temp_spns s1 (parse_temp_spns 0 (the d1) ?z 0) (the d1) (the l1) 1"
    if a: "j1939_send_command sock CMD_QUERY (Some [1, 0]) 2 = (t0, e0)" and b: "\<not> e0 < 0"
      and c: "j1939_check_response t0 (cmd_code CMD_QUERY) (Some response) (Some len') = (s1, 0, d1, l1)"
    using temp_step_ok [OF lt(1) a b c] by (simp only: lt(4))
  have sub2: "query_temp_spns s1 a1 (the d1) (the l1) 1 =
      query_temp_spns s2 (parse_temp_spns 1 (the d2) a1 0) (the d2) (the l2) 2"
    if a: "j1939_send_command s1 CMD_QUERY (Some [1, 1]) 2 = (t1, e1)" and b: "\<not> e1 < 0"
      and c: "j1939_check_response t1 (cmd_code CMD_QUERY) (Some (the d1)) (Some (the l1)) = (s2, 0, d2, l2)"
    for a1
    using temp_step_ok [OF lt(2) a b c] by (simp only: lt(5))
  have sent1: "sent s1 = sent sock @ [query_frame 1 0]"
    if a: "j1939_send_command sock CMD_QUERY (Some [1, 0]) 2 = (t0, e0)"
      and c: "j1939_check_response t0 (cmd_code CMD_QUERY) (Some response) (Some len') = (s1, r, d1, l1)"
    for r
    using send_query_sent [OF a] check_response_sentD [OF c] by simp
  have sent2: "sent s2 = sent s1 @ [query_frame 1 1]"
    if a: "j1939_send_command s1 CMD_QUERY (Some [1, 1]) 2 = (t1, e1)"
      and c: "j1939_check_response t1 (cmd_code CMD_QUERY) (Some (the d1)) (Some (the l1)) = (s2, r, d2, l2)"
    for r
    using send_query_sent [OF a] check_response_sentD [OF c] by simp
  have leaf3: "?R = (t1, -1, parse_temp_spns 0 (the d1) ?z 0) \<and>
      presSpns (snd (snd ?R)) = replicate 7 0 \<and>
      sent t1 = sent sock @ [query_frame 1 0, query_frame 1 1]"
    if a: "j1939_send_command sock CMD_QUERY (Some [1, 0]) 2 = (t0, e0)" and b: "\<not> e0 < 0"
      and c: "j1939_check_response t0 (cmd_code CMD_QUERY) (Some response) (Some len') = (s1, 0, d1, l1)"
      and a1: "j1939_send_command s1 CMD_QUERY (Some [1, 1]) 2 = (t1, e1)" and b1: "e1 < 0"
  proof -
    have "query_temp_spns sock ?z response len' 0 = Inl (t1, -1, parse_temp_spns 0 (the d1) ?z 0)"
      by (simp only: sub1 [OF a b c] temp_step_send_fails [OF lt(2) a1 b1])
    from query_spn_assignments_Inl [OF this] show ?thesis
      using sent1 [OF a c] send_query_sent [OF a1] by (simp add: parse_temp_spns_pres)
  qed
  have leaf4: "?R = (s2, r2, parse_temp_spns 0 (the d1) ?z 0) \<and>
      presSpns (snd (snd ?R)) = replicate 7 0 \<and>
      sent s2 = sent sock @ [query_frame 1 0, query_frame 1 1]"
    if a: "j1939_send_command sock CMD_QUERY (Some [1, 0]) 2 = (t0, e0)" and b: "\<not> e0 < 0"
      and c: "j1939_check_response t0 (cmd_code CMD_QUERY) (Some response) (Some len') = (s1, 0, d1, l1)"
      and a1: "j1939_send_command s1 CMD_QUERY (Some [1, 1]) 2 = (t1, e1)" and b1: "\<not> e1 < 0"
      and c1: "j1939_check_response t1 (cmd_code CMD_QUERY) (Some (the d1)) (Some (the l1)) = (s2, r2, d2, l2)"
      and d1: "r2 \<noteq> 0"
  proof -
    have "query_temp_spns sock ?z response len' 0 = Inl (s2, r2, parse_temp_spns 0 (the d1) ?z 0)"
      by (simp only: sub1 [OF a b c] temp_step_check_fails [OF lt(2) a1 b1 c1 d1])
    from query_spn_assignments_Inl [OF this] show ?thesis
      using sent1 [OF a c] sent2 [OF a1 c1] by (simp add: parse_temp_spns_pres)
  qed
  have leaf5: "?R = (t2, -1, parse_temp_spns 1 (the d2) (parse_temp_spns 0 (the d1) ?z 0) 0) \<and>
      presSpns (snd (snd ?R)) = replicate 7 0 \<and>
      sent t2 = sent sock @ [query_frame 1 0, query_frame 1 1, query_frame 1 2]"
    if a: "j1939_send_command sock CMD_QUERY (Some [1, 0]) 2 = (t0, e0)" and b: "\<not> e0 < 0"
      and c: "j1939_check_response t0 (cmd_code CMD_QUERY) (Some response) (Some len') = (s1, 0, d1, l1)"
      and a1: "j1939_send_command s1 CMD_QUERY (Some [1, 1]) 2 = (t1, e1)" and b1: "\<not> e1 < 0"
      and c1: "j1939_check_response t1 (cmd_code CMD_QUERY) (Some (the d1)) (Some (the l1)) = (s2, 0, d2, l2)"
      and a2: "j1939_send_command s2 CMD_QUERY (Some [1, 2]) 2 = (t2, e2)" and b2: "e2 < 0"
  proof -
    have "query_temp_spns sock ?z response len' 0 =
        Inl (t2, -1, parse_temp_spns 1 (the d2) (parse_temp_spns 0 (the d1) ?z 0) 0)"
      by (simp only: sub1 [OF a b c] sub2 [OF a1 b1 c1] temp_step_send_fails [OF lt(3) a2 b2])
    from query_spn_assignments_Inl [OF this] show ?thesis
      using sent1 [OF a c] sent2 [OF a1 c1] send_query_sent [OF a2]
      by (simp add: parse_temp_spns_pres)
  qed
  have leaf6: "?R = (s3, r3, parse_temp_spns 1 (the d2) (parse_temp_spns 0 (the d1) ?z 0) 0) \<and>
      presSpns (snd (snd ?R)) = replicate 7 0 \<and>
      sent s3 = sent sock @ [query_frame 1 0, query_frame 1 1, query_frame 1 2]"
    if a: "j1939_send_command sock CMD_QUERY (Some [1, 0]) 2 = (t0, e0)" and b: "\<not> e0 < 0"
      and c: "j1939_check_response t0 (cmd_code CMD_QUERY) (Some response) (Some len') = (s1, 0, d1, l1)"
      and a1: "j1939_send_command s1 CMD_QUERY (Some [1, 1]) 2 = (t1, e1)" and b1: "\<not> e1 < 0"
      and c1: "j1939_check_response t1 (cmd_code CMD_QUERY) (Some (the d1)) (Some (the l1)) = (s2, 0, d2, l2)"
      and a2: "j1939_send_command s2 CMD_QUERY (Some [1, 2]) 2 = (t2, e2)" and b2: "\<not> e2 < 0"
      and c2: "j1939_check_response t2 (cmd_code CMD_QUERY) (Some (the d2)) (Some (the l2)) = (s3, r3, d3, l3)"
      and d2: "r3 \<noteq> 0"
  proof -
    have "query_temp_spns sock ?z response len' 0 =
        Inl (s3, r3, parse_temp_spns 1 (the d2) (parse_temp_spns 0 (the d1) ?z 0) 0)"
      by (simp only: sub1 [OF a b c] sub2 [OF a1 b1 c1]
          temp_step_check_fails [OF lt(3) a2 b2 c2 d2])
    from query_spn_assignments_Inl [OF this] show ?thesis
      using sent1 [OF a c] sent2 [OF a1 c1] send_query_sent [OF a2] check_response_sentD [OF c2]
      by (simp add: parse_temp_spns_pres)
  qed
  show ?thesis
    using leaf1 leaf2 leaf3 leaf4 leaf5 leaf6 by blast
qed

text \<open>The tables that the two responses with SPNs give.\<close>

lemma zeroed_stale:
  "stale_assignments\<lparr>tempSpns := replicate 8 0, presSpns := replicate 7 0\<rparr> =
     \<lparr>tempSpns = [0, 0, 0, 0, 0, 0, 0, 0], presSpns = [0, 0, 0, 0, 0, 0, 0]\<rparr>"
  by (simp add: stale_assignments_def numeral_eq_Suc)

lemma parse_a:
  "parse_temp_spns 0 [0x00, 0xAF, 0x00, 0x6E, 0x00, 0xAE]
     \<lparr>tempSpns = [0, 0, 0, 0, 0, 0, 0, 0], presSpns = [0, 0, 0, 0, 0, 0, 0]\<rparr> 0 =
     \<lparr>tempSpns = [175, 110, 174, 0, 0, 0, 0, 0], presSpns = [0, 0, 0, 0, 0, 0, 0]\<rparr>"
  by code_simp

lemma parse_b:
  "parse_temp_spns 1 [0x00, 0x69, 0xFF, 0xFF, 0x04, 0x6B]
     \<lparr>tempSpns = [175, 110, 174, 0, 0, 0, 0, 0], presSpns = [0, 0, 0, 0, 0, 0, 0]\<rparr> 0 =
     \<lparr>tempSpns = [175, 110, 174, 105, 0, 1131, 0, 0], presSpns = [0, 0, 0, 0, 0, 0, 0]\<rparr>"
  by code_simp

text \<open>
  One run for each of the six ways to fail, on \<open>scripted_bus\<close> and a table that held
  other SPNs before, and a time-out of the first sub-query on \<open>quiet_bus\<close>.
\<close>

theorem spn_assignments_temp_failure_witness:
  "j1939_query_spn_assignments (scripted_bus 2 0) stale_assignments [0, 0, 0, 0, 0, 0] 0 =
     (scripted_bus 2 0\<lparr>sent := [query_frame 1 0]\<rparr>,
      -1, \<lparr>tempSpns = [0, 0, 0, 0, 0, 0, 0, 0], presSpns = [0, 0, 0, 0, 0, 0, 0]\<rparr>) \<and>
   j1939_query_spn_assignments (scripted_bus 0 3) stale_assignments [0, 0, 0, 0, 0, 0] 0 =
     (scripted_bus 0 3\<lparr>rx_pos := 1, sent := [query_frame 1 0], slept_us := 50000\<rparr>,
      8, \<lparr>tempSpns = [0, 0, 0, 0, 0, 0, 0, 0], presSpns = [0, 0, 0, 0, 0, 0, 0]\<rparr>) \<and>
   j1939_query_spn_assignments (scripted_bus 2 1) stale_assignments [0, 0, 0, 0, 0, 0] 0 =
     (scripted_bus 2 1\<lparr>rx_pos := 1, sent := [query_frame 1 0, query_frame 1 1], slept_us := 50000\<rparr>,
      -1, \<lparr>tempSpns = [175, 110, 174, 0, 0, 0, 0, 0], presSpns = [0, 0, 0, 0, 0, 0, 0]\<rparr>) \<and>
   j1939_query_spn_assignments (scripted_bus 1 3) stale_assignments [0, 0, 0, 0, 0, 0] 0 =
     (scripted_bus 1 3\<lparr>rx_pos := 2, sent := [query_frame 1 0, query_frame 1 1], slept_us := 100000\<rparr>,
      8, \<lparr>tempSpns = [175, 110, 174, 0, 0, 0, 0, 0], presSpns = [0, 0, 0, 0, 0, 0, 0]\<rparr>) \<and>
   j1939_query_spn_assignments (scripted_bus 2 2) stale_assignments [0, 0, 0, 0, 0, 0] 0 =
     (scripted_bus 2 2\<lparr>rx_pos := 2, sent := [query_frame 1 0, query_frame 1 1, query_frame 1 2], slept_us := 100000\<rparr>,
      -1, \<lparr>tempSpns = [175, 110, 174, 105, 0, 1131, 0, 0], presSpns = [0, 0, 0, 0, 0, 0, 0]\<rparr>) \<and>
   j1939_query_spn_assignments (scripted_bus 2 3) stale_assignments [0, 0, 0, 0, 0, 0] 0 =
     (scripted_bus 2 3\<lparr>rx_pos := 3, sent := [query_frame 1 0, query_frame 1 1, query_frame 1 2], slept_us := 150000\<rparr>,
      8, \<lparr>tempSpns = [175, 110, 174, 105, 0, 1131, 0, 0], presSpns = [0, 0, 0, 0, 0, 0, 0]\<rparr>) \<and>
   j1939_query_spn_assignments quiet_bus stale_assignments [0, 0, 0, 0, 0, 0] 0 =
     (quiet_bus\<lparr>rx_pos := 200, sent := [query_frame 1 0], slept_us := 1050000\<rparr>,
      -1, \<lparr>tempSpns = [0, 0, 0, 0, 0, 0, 0, 0], presSpns = [0, 0, 0, 0, 0, 0, 0]\<rparr>)"
proof -
  have w1: "j1939_query_spn_assignments (scripted_bus 2 0) stale_assignments [0, 0, 0, 0, 0, 0] 0 =
     (scripted_bus 2 0\<lparr>sent := [query_frame 1 0]\<rparr>,
      -1, \<lparr>tempSpns = [0, 0, 0, 0, 0, 0, 0, 0], presSpns = [0, 0, 0, 0, 0, 0, 0]\<rparr>)"
  proof -
    let ?B = "scripted_bus 2 0"
    let ?z = "stale_assignments\<lparr>tempSpns := replicate 8 0, presSpns := replicate 7 0\<rparr>"
    let ?T0 = "?B\<lparr>sent := sent ?B @ [query_frame 1 0]\<rparr>"
    have a0: "j1939_send_command ?B CMD_QUERY (Some [1, 0]) 2 = (?T0, -1)"
      by (simp add: send_query scripted_bus_def)
    have b0: "(-1 :: int) < 0" by simp
    have r: "j1939_query_spn_assignments ?B stale_assignments [0, 0, 0, 0, 0, 0] 0 =
        (?T0, -1, ?z) \<and>
      sent ?T0 = sent ?B @ [query_frame 1 0]"
      by (rule spn_assignments_temp_failure [THEN conjunct1, THEN mp])
         (rule conjI [OF a0],
          rule b0)
    have f: "rx_pos ?B = 0" "sent ?B = []" "slept_us ?B = 0"
      by (simp_all add: scripted_bus_def)
    show ?thesis
      using r f by (simp add: zeroed_stale parse_a parse_b)
  qed
  have w2: "j1939_query_spn_assignments (scripted_bus 0 3) stale_assignments [0, 0, 0, 0, 0, 0] 0 =
     (scripted_bus 0 3\<lparr>rx_pos := 1, sent := [query_frame 1 0], slept_us := 50000\<rparr>,
      8, \<lparr>tempSpns = [0, 0, 0, 0, 0, 0, 0, 0], presSpns = [0, 0, 0, 0, 0, 0, 0]\<rparr>)"
  proof -
    let ?B = "scripted_bus 0 3"
    let ?z = "stale_assignments\<lparr>tempSpns := replicate 8 0, presSpns := replicate 7 0\<rparr>"
    let ?T0 = "?B\<lparr>sent := sent ?B @ [query_frame 1 0]\<rparr>"
    have a0: "j1939_send_command ?B CMD_QUERY (Some [1, 0]) 2 = (?T0, 0)"
      by (simp add: send_query scripted_bus_def)
    have b0: "\<not> (0 :: int) < 0" by simp
    let ?S1 = "?T0\<lparr>rx_pos := rx_pos ?T0 + 0 + 1, slept_us := slept_us ?T0 + 50000 + 5000 * 0\<rparr>"
    have c0: "j1939_check_response ?T0 (cmd_code CMD_QUERY) (Some ([0, 0, 0, 0, 0, 0])) (Some (0)) =
        (?S1, 8, Some [0xFF, 0xFF, 0xFF, 0xFF, 0xFF, 0xFF], Some 6)"
      using first_match [of 0 "cmd_code CMD_QUERY" ?T0 error_reply "Some ([0, 0, 0, 0, 0, 0])" "Some (0)"]
      by (simp add: scripted_bus_def accepted_def temp_reply_a_def temp_reply_b_def
          error_reply_def reply_frame_def j1939_get_pgn_def j1939_get_source_def
          pgn_defs OSSM_SOURCE_ADDRESS_def memcpy_def)
    have d0: "(8 :: int) \<noteq> 0" by simp
    have r: "j1939_query_spn_assignments ?B stale_assignments [0, 0, 0, 0, 0, 0] 0 =
        (?S1, 8, ?z) \<and>
      sent ?S1 = sent ?B @ [query_frame 1 0]"
      by (rule spn_assignments_temp_failure [THEN conjunct2, THEN conjunct1, THEN mp])
         (rule conjI [OF a0],
          rule conjI [OF b0],
          rule conjI [OF c0],
          rule d0)
    have f: "rx_pos ?B = 0" "sent ?B = []" "slept_us ?B = 0"
      by (simp_all add: scripted_bus_def)
    show ?thesis
      using r f by (simp add: zeroed_stale parse_a parse_b)
  qed
  have w3: "j1939_query_spn_assignments (scripted_bus 2 1) stale_assignments [0, 0, 0, 0, 0, 0] 0 =
     (scripted_bus 2 1\<lparr>rx_pos := 1, sent := [query_frame 1 0, query_frame 1 1], slept_us := 50000\<rparr>,
      -1, \<lparr>tempSpns = [175, 110, 174, 0, 0, 0, 0, 0], presSpns = [0, 0, 0, 0, 0, 0, 0]\<rparr>)"
  proof -
    let ?B = "scripted_bus 2 1"
    let ?z = "stale_assignments\<lparr>tempSpns := replicate 8 0, presSpns := replicate 7 0\<rparr>"
    let ?T0 = "?B\<lparr>sent := sent ?B @ [query_frame 1 0]\<rparr>"
    have a0: "j1939_send_command ?B CMD_QUERY (Some [1, 0]) 2 = (?T0, 0)"
      by (simp add: send_query scripted_bus_def)
    have b0: "\<not> (0 :: int) < 0" by simp
    let ?S1 = "?T0\<lparr>rx_pos := rx_pos ?T0 + 0 + 1, slept_us := slept_us ?T0 + 50000 + 5000 * 0\<rparr>"
    have c0: "j1939_check_response ?T0 (cmd_code CMD_QUERY) (Some ([0, 0, 0, 0, 0, 0])) (Some (0)) =
        (?S1, 0, Some [0x00, 0xAF, 0x00, 0x6E, 0x00, 0xAE], Some 6)"
      using first_match [of 0 "cmd_code CMD_QUERY" ?T0 temp_reply_a "Some ([0, 0, 0, 0, 0, 0])" "Some (0)"]
      by (simp add: scripted_bus_def accepted_def temp_reply_a_def temp_reply_b_def
          error_reply_def reply_frame_def j1939_get_pgn_def j1939_get_source_def
          pgn_defs OSSM_SOURCE_ADDRESS_def memcpy_def)
    let ?T1 = "?S1\<lparr>sent := sent ?S1 @ [query_frame 1 1]\<rparr>"
    have a1: "j1939_send_command ?S1 CMD_QUERY (Some [1, 1]) 2 = (?T1, -1)"
      by (simp add: send_query scripted_bus_def)
    have b1: "(-1 :: int) < 0" by simp
    have r: "j1939_query_spn_assignments ?B stale_assignments [0, 0, 0, 0, 0, 0] 0 =
        (?T1, -1, parse_temp_spns 0 (the (Some [0x00, 0xAF, 0x00, 0x6E, 0x00, 0xAE])) (?z) 0) \<and>
      presSpns (snd (snd (j1939_query_spn_assignments ?B stale_assignments [0, 0, 0, 0, 0, 0] 0))) =
        replicate 7 0 \<and>
      sent ?T1 = sent ?B @ [query_frame 1 0, query_frame 1 1]"
      by (rule spn_assignments_temp_failure [THEN conjunct2, THEN conjunct2, THEN conjunct1, THEN mp])
         (rule conjI [OF a0],
          rule conjI [OF b0],
          rule conjI [OF c0],
          rule conjI [OF a1],
          rule b1)
    have f: "rx_pos ?B = 0" "sent ?B = []" "slept_us ?B = 0"
      by (simp_all add: scripted_bus_def)
    show ?thesis
      using r f by (simp add: zeroed_stale parse_a parse_b)
  qed
  have w4: "j1939_query_spn_assignments (scripted_bus 1 3) stale_assignments [0, 0, 0, 0, 0, 0] 0 =
     (scripted_bus 1 3\<lparr>rx_pos := 2, sent := [query_frame 1 0, query_frame 1 1], slept_us := 100000\<rparr>,
      8, \<lparr>tempSpns = [175, 110, 174, 0, 0, 0, 0, 0], presSpns = [0, 0, 0, 0, 0, 0, 0]\<rparr>)"
  proof -
    let ?B = "scripted_bus 1 3"
    let ?z = "stale_assignments\<lparr>tempSpns := replicate 8 0, presSpns := replicate 7 0\<rparr>"
    let ?T0 = "?B\<lparr>sent := sent ?B @ [query_frame 1 0]\<rparr>"
    have a0: "j1939_send_command ?B CMD_QUERY (Some [1, 0]) 2 = (?T0, 0)"
      by (simp add: send_query scripted_bus_def)
    have b0: "\<not> (0 :: int) < 0" by simp
    let ?S1 = "?T0\<lparr>rx_pos := rx_pos ?T0 + 0 + 1, slept_us := slept_us ?T0 + 50000 + 5000 * 0\<rparr>"
    have c0: "j1939_check_response ?T0 (cmd_code CMD_QUERY) (Some ([0, 0, 0, 0, 0, 0])) (Some (0)) =
        (?S1, 0, Some [0x00, 0xAF, 0x00, 0x6E, 0x00, 0xAE], Some 6)"
      using first_match [of 0 "cmd_code CMD_QUERY" ?T0 temp_reply_a "Some ([0, 0, 0, 0, 0, 0])" "Some (0)"]
      by (simp add: scripted_bus_def accepted_def temp_reply_a_def temp_reply_b_def
          error_reply_def reply_frame_def j1939_get_pgn_def j1939_get_source_def
          pgn_defs OSSM_SOURCE_ADDRESS_def memcpy_def)
    let ?T1 = "?S1\<lparr>sent := sent ?S1 @ [query_frame 1 1]\<rparr>"
    have a1: "j1939_send_command ?S1 CMD_QUERY (Some [1, 1]) 2 = (?T1, 0)"
      by (simp add: send_query scripted_bus_def)
    have b1: "\<not> (0 :: int) < 0" by simp
    let ?S2 = "?T1\<lparr>rx_pos := rx_pos ?T1 + 0 + 1, slept_us := slept_us ?T1 + 50000 + 5000 * 0\<rparr>"
    have c1: "j1939_check_response ?T1 (cmd_code CMD_QUERY) (Some (the (Some [0x00, 0xAF, 0x00, 0x6E, 0x00, 0xAE]))) (Some (the (Some 6))) =
        (?S2, 8, Some [0xFF, 0xFF, 0xFF, 0xFF, 0xFF, 0xFF], Some 6)"
      using first_match [of 0 "cmd_code CMD_QUERY" ?T1 error_reply "Some (the (Some [0x00, 0xAF, 0x00, 0x6E, 0x00, 0xAE]))" "Some (the (Some 6))"]
      by (simp add: scripted_bus_def accepted_def temp_reply_a_def temp_reply_b_def
          error_reply_def reply_frame_def j1939_get_pgn_def j1939_get_source_def
          pgn_defs OSSM_SOURCE_ADDRESS_def memcpy_def)
    have d1: "(8 :: int) \<noteq> 0" by simp
    have r: "j1939_query_spn_assignments ?B stale_assignments [0, 0, 0, 0, 0, 0] 0 =
        (?S2, 8, parse_temp_spns 0 (the (Some [0x00, 0xAF, 0x00, 0x6E, 0x00, 0xAE])) (?z) 0) \<and>
      presSpns (snd (snd (j1939_query_spn_assignments ?B stale_assignments [0, 0, 0, 0, 0, 0] 0))) =
        replicate 7 0 \<and>
      sent ?S2 = sent ?B @ [query_frame 1 0, query_frame 1 1]"
      by (rule spn_assignments_temp_failure [THEN conjunct2, THEN conjunct2, THEN conjunct2, THEN conjunct1, THEN mp])
         (rule conjI [OF a0],
          rule conjI [OF b0],
          rule conjI [OF c0],
          rule conjI [OF a1],
          rule conjI [OF b1],
          rule conjI [OF c1],
          rule d1)
    have f: "rx_pos ?B = 0" "sent ?B = []" "slept_us ?B = 0"
      by (simp_all add: scripted_bus_def)
    show ?thesis
      using r f by (simp add: zeroed_stale parse_a parse_b)
  qed
  have w5: "j1939_query_spn_assignments (scripted_bus 2 2) stale_assignments [0, 0, 0, 0, 0, 0] 0 =
     (scripted_bus 2 2\<lparr>rx_pos := 2, sent := [query_frame 1 0, query_frame 1 1, query_frame 1 2], slept_us := 100000\<rparr>,
      -1, \<lparr>tempSpns = [175, 110, 174, 105, 0, 1131, 0, 0], presSpns = [0, 0, 0, 0, 0, 0, 0]\<rparr>)"
  proof -
    let ?B = "scripted_bus 2 2"
    let ?z = "stale_assignments\<lparr>tempSpns := replicate 8 0, presSpns := replicate 7 0\<rparr>"
    let ?T0 = "?B\<lparr>sent := sent ?B @ [query_frame 1 0]\<rparr>"
    have a0: "j1939_send_command ?B CMD_QUERY (Some [1, 0]) 2 = (?T0, 0)"
      by (simp add: send_query scripted_bus_def)
    have b0: "\<not> (0 :: int) < 0" by simp
    let ?S1 = "?T0\<lparr>rx_pos := rx_pos ?T0 + 0 + 1, slept_us := slept_us ?T0 + 50000 + 5000 * 0\<rparr>"
    have c0: "j1939_check_response ?T0 (cmd_code CMD_QUERY) (Some ([0, 0, 0, 0, 0, 0])) (Some (0)) =
        (?S1, 0, Some [0x00, 0xAF, 0x00, 0x6E, 0x00, 0xAE], Some 6)"
      using first_match [of 0 "cmd_code CMD_QUERY" ?T0 temp_reply_a "Some ([0, 0, 0, 0, 0, 0])" "Some (0)"]
      by (simp add: scripted_bus_def accepted_def temp_reply_a_def temp_reply_b_def
          error_reply_def reply_frame_def j1939_get_pgn_def j1939_get_source_def
          pgn_defs OSSM_SOURCE_ADDRESS_def memcpy_def)
    let ?T1 = "?S1\<lparr>sent := sent ?S1 @ [query_frame 1 1]\<rparr>"
    have a1: "j1939_send_command ?S1 CMD_QUERY (Some [1, 1]) 2 = (?T1, 0)"
      by (simp add: send_query scripted_bus_def)
    have b1: "\<not> (0 :: int) < 0" by simp
    let ?S2 = "?T1\<lparr>rx_pos := rx_pos ?T1 + 0 + 1, slept_us := slept_us ?T1 + 50000 + 5000 * 0\<rparr>"
    have c1: "j1939_check_response ?T1 (cmd_code CMD_QUERY) (Some (the (Some [0x00, 0xAF, 0x00, 0x6E, 0x00, 0xAE]))) (Some (the (Some 6))) =
        (?S2, 0, Some [0x00, 0x69, 0xFF, 0xFF, 0x04, 0x6B], Some 6)"
      using first_match [of 0 "cmd_code CMD_QUERY" ?T1 temp_reply_b "Some (the (Some [0x00, 0xAF, 0x00, 0x6E, 0x00, 0xAE]))" "Some (the (Some 6))"]
      by (simp add: scripted_bus_def accepted_def temp_reply_a_def temp_reply_b_def
          error_reply_def reply_frame_def j1939_get_pgn_def j1939_get_source_def
          pgn_defs OSSM_SOURCE_ADDRESS_def memcpy_def)
    let ?T2 = "?S2\<lparr>sent := sent ?S2 @ [query_frame 1 2]\<rparr>"
    have a2: "j1939_send_command ?S2 CMD_QUERY (Some [1, 2]) 2 = (?T2, -1)"
      by (simp add: send_query scripted_bus_def)
    have b2: "(-1 :: int) < 0" by simp
    have r: "j1939_query_spn_assignments ?B stale_assignments [0, 0, 0, 0, 0, 0] 0 =
        (?T2, -1, parse_temp_spns 1 (the (Some [0x00, 0x69, 0xFF, 0xFF, 0x04, 0x6B])) (parse_temp_spns 0 (the (Some [0x00, 0xAF, 0x00, 0x6E, 0x00, 0xAE])) (?z) 0) 0) \<and>
      presSpns (snd (snd (j1939_query_spn_assignments ?B stale_assignments [0, 0, 0, 0, 0, 0] 0))) =
        replicate 7 0 \<and>
      sent ?T2 = sent ?B @ [query_frame 1 0, query_frame 1 1, query_frame 1 2]"
      by (rule spn_assignments_temp_failure [THEN conjunct2, THEN conjunct2, THEN conjunct2, THEN conjunct2, THEN conjunct1, THEN mp])
         (rule conjI [OF a0],
          rule conjI [OF b0],
          rule conjI [OF c0],
          rule conjI [OF a1],
          rule conjI [OF b1],
          rule conjI [OF c1],
          rule conjI [OF a2],
          rule b2)
    have f: "rx_pos ?B = 0" "sent ?B = []" "slept_us ?B = 0"
      by (simp_all add: scripted_bus_def)
    show ?thesis
      using r f by (simp add: zeroed_stale parse_a parse_b)
  qed
  have w6: "j1939_query_spn_assignments (scripted_bus 2 3) stale_assignments [0, 0, 0, 0, 0, 0] 0 =
     (scripted_bus 2 3\<lparr>rx_pos := 3, sent := [query_frame 1 0, query_frame 1 1, query_frame 1 2], slept_us := 150000\<rparr>,
      8, \<lparr>tempSpns = [175, 110, 174, 105, 0, 1131, 0, 0], presSpns = [0, 0, 0, 0, 0, 0, 0]\<rparr>)"
  proof -
    let ?B = "scripted_bus 2 3"
    let ?z = "stale_assignments\<lparr>tempSpns := replicate 8 0, presSpns := replicate 7 0\<rparr>"
    let ?T0 = "?B\<lparr>sent := sent ?B @ [query_frame 1 0]\<rparr>"
    have a0: "j1939_send_command ?B CMD_QUERY (Some [1, 0]) 2 = (?T0, 0)"
      by (simp add: send_query scripted_bus_def)
    have b0: "\<not> (0 :: int) < 0" by simp
    let ?S1 = "?T0\<lparr>rx_pos := rx_pos ?T0 + 0 + 1, slept_us := slept_us ?T0 + 50000 + 5000 * 0\<rparr>"
    have c0: "j1939_check_response ?T0 (cmd_code CMD_QUERY) (Some ([0, 0, 0, 0, 0, 0])) (Some (0)) =
        (?S1, 0, Some [0x00, 0xAF, 0x00, 0x6E, 0x00, 0xAE], Some 6)"
      using first_match [of 0 "cmd_code CMD_QUERY" ?T0 temp_reply_a "Some ([0, 0, 0, 0, 0, 0])" "Some (0)"]
      by (simp add: scripted_bus_def accepted_def temp_reply_a_def temp_reply_b_def
          error_reply_def reply_frame_def j1939_get_pgn_def j1939_get_source_def
          pgn_defs OSSM_SOURCE_ADDRESS_def memcpy_def)
    let ?T1 = "?S1\<lparr>sent := sent ?S1 @ [query_frame 1 1]\<rparr>"
    have a1: "j1939_send_command ?S1 CMD_QUERY (Some [1, 1]) 2 = (?T1, 0)"
      by (simp add: send_query scripted_bus_def)
    have b1: "\<not> (0 :: int) < 0" by simp
    let ?S2 = "?T1\<lparr>rx_pos := rx_pos ?T1 + 0 + 1, slept_us := slept_us ?T1 + 50000 + 5000 * 0\<rparr>"
    have c1: "j1939_check_response ?T1 (cmd_code CMD_QUERY) (Some (the (Some [0x00, 0xAF, 0x00, 0x6E, 0x00, 0xAE]))) (Some (the (Some 6))) =
        (?S2, 0, Some [0x00, 0x69, 0xFF, 0xFF, 0x04, 0x6B], Some 6)"
      using first_match [of 0 "cmd_code CMD_QUERY" ?T1 temp_reply_b "Some (the (Some [0x00, 0xAF, 0x00, 0x6E, 0x00, 0xAE]))" "Some (the (Some 6))"]
      by (simp add: scripted_bus_def accepted_def temp_reply_a_def temp_reply_b_def
          error_reply_def reply_frame_def j1939_get_pgn_def j1939_get_source_def
          pgn_defs OSSM_SOURCE_ADDRESS_def memcpy_def)
    let ?T2 = "?S2\<lparr>sent := sent ?S2 @ [query_frame 1 2]\<rparr>"
    have a2: "j1939_send_command ?S2 CMD_QUERY (Some [1, 2]) 2 = (?T2, 0)"
      by (simp add: send_query scripted_bus_def)
    have b2: "\<not> (0 :: int) < 0" by simp
    let ?S3 = "?T2\<lparr>rx_pos := rx_pos ?T2 + 0 + 1, slept_us := slept_us ?T2 + 50000 + 5000 * 0\<rparr>"
    have c2: "j1939_check_response ?T2 (cmd_code CMD_QUERY) (Some (the (Some [0x00, 0x69, 0xFF, 0xFF, 0x04, 0x6B]))) (Some (the (Some 6))) =
        (?S3, 8, Some [0xFF, 0xFF, 0xFF, 0xFF, 0xFF, 0xFF], Some 6)"
      using first_match [of 0 "cmd_code CMD_QUERY" ?T2 error_reply "Some (the (Some [0x00, 0x69, 0xFF, 0xFF, 0x04, 0x6B]))" "Some (the (Some 6))"]
      by (simp add: scripted_bus_def accepted_def temp_reply_a_def temp_reply_b_def
          error_reply_def reply_frame_def j1939_get_pgn_def j1939_get_source_def
          pgn_defs OSSM_SOURCE_ADDRESS_def memcpy_def)
    have d2: "(8 :: int) \<noteq> 0" by simp
    have r: "j1939_query_spn_assignments ?B stale_assignments [0, 0, 0, 0, 0, 0] 0 =
        (?S3, 8, parse_temp_spns 1 (the (Some [0x00, 0x69, 0xFF, 0xFF, 0x04, 0x6B])) (parse_temp_spns 0 (the (Some [0x00, 0xAF, 0x00, 0x6E, 0x00, 0xAE])) (?z) 0) 0) \<and>
      presSpns (snd (snd (j1939_query_spn_assignments ?B stale_assignments [0, 0, 0, 0, 0, 0] 0))) =
        replicate 7 0 \<and>
      sent ?S3 = sent ?B @ [query_frame 1 0, query_frame 1 1, query_frame 1 2]"
      by (rule spn_assignments_temp_failure [THEN conjunct2, THEN conjunct2, THEN conjunct2, THEN conjunct2, THEN conjunct2, THEN mp])
         (rule conjI [OF a0],
          rule conjI [OF b0],
          rule conjI [OF c0],
          rule conjI [OF a1],
          rule conjI [OF b1],
          rule conjI [OF c1],
          rule conjI [OF a2],
          rule conjI [OF b2],
          rule conjI [OF c2],
          rule d2)
    have f: "rx_pos ?B = 0" "sent ?B = []" "slept_us ?B = 0"
      by (simp_all add: scripted_bus_def)
    show ?thesis
      using r f by (simp add: zeroed_stale parse_a parse_b)
  qed
  have w7: "j1939_query_spn_assignments quiet_bus stale_assignments [0, 0, 0, 0, 0, 0] 0 =
     (quiet_bus\<lparr>rx_pos := 200, sent := [query_frame 1 0], slept_us := 1050000\<rparr>,
      -1, \<lparr>tempSpns = [0, 0, 0, 0, 0, 0, 0, 0], presSpns = [0, 0, 0, 0, 0, 0, 0]\<rparr>)"
  proof -
    let ?B = "quiet_bus"
    let ?z = "stale_assignments\<lparr>tempSpns := replicate 8 0, presSpns := replicate 7 0\<rparr>"
    let ?T0 = "?B\<lparr>sent := sent ?B @ [query_frame 1 0]\<rparr>"
    let ?S1 = "?T0\<lparr>rx_pos := rx_pos ?T0 + 200, slept_us := slept_us ?T0 + 1050000\<rparr>"
    have a0: "j1939_send_command ?B CMD_QUERY (Some [1, 0]) 2 = (?T0, 0)"
      by (simp add: send_query quiet_bus_def)
    have b0: "\<not> (0 :: int) < 0" by simp
    have none: "\<forall>j<200. \<not> accepted (cmd_code CMD_QUERY) (rx ?T0 (rx_pos ?T0 + j))"
      by (simp add: quiet_bus_def accepted_def)
    have c0: "j1939_check_response ?T0 (cmd_code CMD_QUERY) (Some ([0, 0, 0, 0, 0, 0])) (Some (0)) =
        (?S1, -1, Some [0, 0, 0, 0, 0, 0], Some 0)"
      using no_match [OF none, of "Some [0, 0, 0, 0, 0, 0]" "Some 0"] by simp
    have d0: "(-1 :: int) \<noteq> 0" by simp
    have r: "j1939_query_spn_assignments ?B stale_assignments [0, 0, 0, 0, 0, 0] 0 = (?S1, -1, ?z) \<and>
      sent ?S1 = sent ?B @ [query_frame 1 0]"
      by (rule spn_assignments_temp_failure [THEN conjunct2, THEN conjunct1, THEN mp])
         (rule conjI [OF a0],
          rule conjI [OF b0],
          rule conjI [OF c0],
          rule d0)
    have f: "rx_pos ?B = 0" "sent ?B = []" "slept_us ?B = 0"
      by (simp_all add: quiet_bus_def)
    show ?thesis
      using r f by (simp add: zeroed_stale)
  qed
  show ?thesis
    using w1 w2 w3 w4 w5 w6 w7 by (intro conjI)
qed

end
